theory Spec2Isabelle
  imports Main
begin

section \<open>JavaScript values\<close>

text \<open>
  Exceptions are values. \<open>TypeError\<close> is the runtime's own error (reading a property of
  \<open>undefined\<close>, destructuring a non-iterable, assigning a property on a primitive
  in strict mode). \<open>ReferenceCycle\<close> is the error the specification asks for when
  dereferencing exceeds its bound. \<open>Unsupported\<close> marks the two places where the
  embedding does not follow the runtime: the \<open>length\<close> of a signature that is a function
  or an object with a \<open>length\<close> of its own, and a signature entry that is an array.
  Neither arises unless a handler replaces the signature of its context.

  The store keeps arbitrary JavaScript values. The embedding uses one datatype for them.
  Numbers are integers plus \<open>NaN\<close> (timestamps, durations and counters are all the
  sources compute with). Objects are association lists in insertion order; the first
  binding of a name is the live one. Functions and pattern objects are compared by
  reference in the sources, so they are identified by a number. \<open>StoreRef\<close> stands for
  the reference to the owning store that a handler context holds, \<open>Exn\<close> for an
  exception caught as a value.
  Only enumerable own properties are modelled in values: \<open>length\<close> and inherited members
  (\<open>constructor\<close>, ...) are not reachable through property access in the model. The
  one object that the sources index with keys of the caller's choosing and test for
  truth, the record of fetched keys, takes the inherited members into account.
\<close>

datatype jserror = TypeError | ReferenceCycle | Unsupported

datatype jsval =
    Undefined
  | Null
  | Bool bool
  | Num int
  | NaN
  | Str string
  | Arr "jsval list"
  | Obj "(string \<times> jsval) list"
  | Fn nat
  | RegExp nat
  | StoreRef
  | Exn jserror

text \<open>
  A thrown exception is the left summand of a result. \<open>bind\<close> for such results:
\<close>

definition rbind :: "jserror + 'a \<Rightarrow> ('a \<Rightarrow> jserror + 'b) \<Rightarrow> jserror + 'b" where
  "rbind m f = (case m of Inl e \<Rightarrow> Inl e | Inr x \<Rightarrow> f x)"

fun truthy :: "jsval \<Rightarrow> bool" where
  "truthy Undefined = False"
| "truthy Null = False"
| "truthy (Bool b) = b"
| "truthy (Num n) = (n \<noteq> 0)"
| "truthy NaN = False"
| "truthy (Str s) = (s \<noteq> [])"
| "truthy v = True"

fun typeof :: "jsval \<Rightarrow> string" where
  "typeof Undefined = ''undefined''"
| "typeof (Bool b) = ''boolean''"
| "typeof (Num n) = ''number''"
| "typeof NaN = ''number''"
| "typeof (Str s) = ''string''"
| "typeof (Fn f) = ''function''"
| "typeof v = ''object''"

fun isArray :: "jsval \<Rightarrow> bool" where
  "isArray (Arr xs) = True"
| "isArray v = False"

fun isPlainObject :: "jsval \<Rightarrow> bool" where
  "isPlainObject (Obj kvs) = True"
| "isPlainObject v = False"

text \<open>\<open>v == null\<close>: true for \<open>null\<close> and \<open>undefined\<close> only.\<close>

fun isNullish :: "jsval \<Rightarrow> bool" where
  "isNullish Undefined = True"
| "isNullish Null = True"
| "isNullish v = False"

subsection \<open>Strings\<close>

text \<open>\<open>s.indexOf(p) == 0\<close>: the string starts with \<open>p\<close>.\<close>

fun startsWith :: "string \<Rightarrow> string \<Rightarrow> bool" where
  "startsWith s [] = True"
| "startsWith [] (p # ps) = False"
| "startsWith (c # cs) (p # ps) = (c = p \<and> startsWith cs ps)"

text \<open>\<open>s.split(sep)\<close> for a one-character separator: never empty, \<open>''''.split('/') = ['''']\<close>.\<close>

fun split :: "char \<Rightarrow> string \<Rightarrow> string list" where
  "split sep [] = [[]]"
| "split sep (c # cs) =
     (if c = sep then [] # split sep cs
      else (case split sep cs of [] \<Rightarrow> [[c]] | s # ss \<Rightarrow> (c # s) # ss))"

text \<open>\<open>segs.join(sep)\<close>.\<close>

fun join :: "string \<Rightarrow> string list \<Rightarrow> string" where
  "join sep [] = []"
| "join sep [s] = s"
| "join sep (s # ss) = s @ sep @ join sep ss"

definition digit :: "nat \<Rightarrow> char" where
  "digit n = ''0123456789'' ! (n mod 10)"

text \<open>The decimal name of an array index, as property enumeration produces it.\<close>

fun indexName :: "nat \<Rightarrow> string" where
  "indexName n = (if n < 10 then [digit n] else indexName (n div 10) @ [digit (n mod 10)])"

text \<open>
  The names that count as array indices when properties are enumerated: the canonical
  decimal numerals (no leading zero) below \<open>2^32 - 1\<close>.
\<close>

definition digitValue :: "char \<Rightarrow> int" where
  "digitValue c = int (length (takeWhile (\<lambda>d. d \<noteq> c) ''0123456789''))"

definition indexValue :: "string \<Rightarrow> int" where
  "indexValue s = foldl (\<lambda>n c. 10 * n + digitValue c) 0 s"

definition isIndexName :: "string \<Rightarrow> bool" where
  "isIndexName s =
     (s \<noteq> [] \<and> list_all (\<lambda>c. c \<in> set ''0123456789'') s
      \<and> (s = ''0'' \<or> take 1 s \<noteq> ''0'') \<and> indexValue s < 4294967295)"

subsection \<open>Objects\<close>

text \<open>\<open>obj[k] = v\<close> on a plain object: overwrite in place, or append a new property.\<close>

fun obj_set :: "(string \<times> jsval) list \<Rightarrow> string \<Rightarrow> jsval \<Rightarrow> (string \<times> jsval) list" where
  "obj_set [] k v = [(k, v)]"
| "obj_set ((k', v') # kvs) k v =
     (if k' = k then (k, v) # kvs else (k', v') # obj_set kvs k v)"

fun indexed :: "nat \<Rightarrow> jsval list \<Rightarrow> (string \<times> jsval) list" where
  "indexed i [] = []"
| "indexed i (x # xs) = (indexName i, x) # indexed (Suc i) xs"

text \<open>
  The property bindings of a value: those of an object, the indices of an array or of a
  string, none for the other values.
\<close>

fun rawProps :: "jsval \<Rightarrow> (string \<times> jsval) list" where
  "rawProps (Obj kvs) = kvs"
| "rawProps (Arr xs) = indexed 0 xs"
| "rawProps (Str s) = indexed 0 (map (\<lambda>c. Str [c]) s)"
| "rawProps v = []"

text \<open>\<open>v[k]\<close> for a value that is not \<open>null\<close> or \<open>undefined\<close>: \<open>undefined\<close> when absent.\<close>

definition getProp :: "jsval \<Rightarrow> string \<Rightarrow> jsval" where
  "getProp v k = (case map_of (rawProps v) k of None \<Rightarrow> Undefined | Some x \<Rightarrow> x)"

text \<open>\<open>k in v\<close> restricted to own properties.\<close>

definition hasProp :: "jsval \<Rightarrow> string \<Rightarrow> bool" where
  "hasProp v k = (map_of (rawProps v) k \<noteq> None)"

text \<open>
  The order in which the own properties of an object are enumerated: the index names
  first, in ascending numeric order, then the other names in insertion order.
\<close>

definition enumerated :: "(string \<times> 'a) list \<Rightarrow> (string \<times> 'a) list" where
  "enumerated kvs =
     sort_key (\<lambda>kv. indexValue (fst kv)) (filter (\<lambda>kv. isIndexName (fst kv)) kvs)
     @ filter (\<lambda>kv. \<not> isIndexName (fst kv)) kvs"

text \<open>
  The own enumerable properties as \<open>for ... in\<close>, \<open>Object.keys\<close> and \<open>object-assign\<close>
  enumerate them: every name once, with its live binding, in enumeration order. \<open>seen\<close>
  holds the names already met.
\<close>

fun live :: "string list \<Rightarrow> (string \<times> jsval) list \<Rightarrow> (string \<times> jsval) list" where
  "live seen [] = []"
| "live seen ((k, v) # kvs) =
     (if k \<in> set seen then live seen kvs else (k, v) # live (k # seen) kvs)"

definition ownProps :: "jsval \<Rightarrow> (string \<times> jsval) list" where
  "ownProps v = enumerated (live [] (rawProps v))"

definition ownKeys :: "jsval \<Rightarrow> string list" where
  "ownKeys v = map fst (ownProps v)"

text \<open>
  \<open>assign(target, ...sources)\<close> of the \<open>object-assign\<close> package: sources are taken left to
  right, \<open>null\<close> and \<open>undefined\<close> sources are skipped, every own enumerable property of a
  source is written to the target.
\<close>

fun assignProps :: "(string \<times> jsval) list \<Rightarrow> (string \<times> jsval) list \<Rightarrow> (string \<times> jsval) list" where
  "assignProps to [] = to"
| "assignProps to ((k, v) # kvs) = assignProps (obj_set to k v) kvs"

fun assign :: "(string \<times> jsval) list \<Rightarrow> jsval list \<Rightarrow> (string \<times> jsval) list" where
  "assign to [] = to"
| "assign to (src # srcs) = assign (assignProps to (ownProps src)) srcs"

subsection \<open>Arrays and iteration\<close>

text \<open>\<open>xs[i]\<close> on an array: \<open>undefined\<close> out of range.\<close>

definition nthOrUndefined :: "jsval list \<Rightarrow> nat \<Rightarrow> jsval" where
  "nthOrUndefined xs i = (if i < length xs then xs ! i else Undefined)"

text \<open>
  The elements an array destructuring or a spread reads: those of an array, the
  characters of a string; any other value is not iterable and raises.
\<close>

fun iterate :: "jsval \<Rightarrow> jserror + jsval list" where
  "iterate (Arr xs) = Inr xs"
| "iterate (Str s) = Inr (map (\<lambda>c. Str [c]) s)"
| "iterate v = Inl TypeError"

section \<open>The store\<close>

text \<open>
  One registered handler: \<open>use\<close> only registers values whose \<open>typeof\<close> is \<open>function\<close>, so
  the handler is kept as the function's identity; the matcher is whatever was passed.
\<close>

record hentry =
  handler :: nat
  hmatch :: jsval

text \<open>Calls made to the collaborators (HTTP agent, clock, cursors, event emitter), in order.\<close>

datatype effect =
    AgentGet jsval jsval
  | AgentAbortTracked "string list"
  | AgentAbortKey jsval
  | ClockCancel jsval
  | CursorDestroy string
  | RemoveAllListeners

text \<open>
  \<open>fetchedKeys\<close> holds the own properties of the record of fetched keys, in the order in
  which they are enumerated.
\<close>

record store =
  destroyed :: bool
  isWritable :: bool
  cursors :: "string list"
  data :: jsval
  handlers :: "hentry list"
  serialisableKeys :: "(string \<times> jsval) list"
  fetchedKeys :: "string list"
  effects :: "effect list"

subsection \<open>Registering and unregistering handlers\<close>

text \<open>\<open>let [match, handler] = pair\<close>.\<close>

definition destructure2 :: "jsval \<Rightarrow> jserror + (jsval \<times> jsval)" where
  "destructure2 pair =
     rbind (iterate pair) (\<lambda>xs. Inr (nthOrUndefined xs 0, nthOrUndefined xs 1))"

text \<open>\<open>!Array.isArray(match) ? [[match, handler]] : match\<close>.\<close>

definition matchesOf :: "jsval \<Rightarrow> jsval \<Rightarrow> jsval list" where
  "matchesOf match h = (case match of Arr ms \<Rightarrow> ms | _ \<Rightarrow> [Arr [match, h]])"

text \<open>The body of the \<open>forEach\<close> in \<open>use\<close>, for one pair.\<close>

definition use1 :: "hentry list \<Rightarrow> jsval \<Rightarrow> jserror + hentry list" where
  "use1 hs pair =
     rbind (destructure2 pair) (\<lambda>(m, h).
       let h' = (if typeof m = ''function'' then m else h);
           m' = (if typeof m = ''function'' then Str [] else m)
       in (case h' of
             Fn f \<Rightarrow> Inr (hs @ [\<lparr>handler = f, hmatch = m'\<rparr>])
           | _ \<Rightarrow> Inr hs))"

fun useAll :: "hentry list \<Rightarrow> jsval list \<Rightarrow> jserror + hentry list" where
  "useAll hs [] = Inr hs"
| "useAll hs (p # ps) = rbind (use1 hs p) (\<lambda>hs'. useAll hs' ps)"

definition use :: "store \<Rightarrow> jsval \<Rightarrow> jsval \<Rightarrow> jserror + store" where
  "use st match h =
     rbind (useAll (handlers st) (matchesOf match h)) (\<lambda>hs. Inr (st\<lparr>handlers := hs\<rparr>))"

text \<open>\<open>hs.splice(j, 1)\<close>.\<close>

definition splice1 :: "'a list \<Rightarrow> nat \<Rightarrow> 'a list" where
  "splice1 hs j = take j hs @ drop (Suc j) hs"

text \<open>
  \<open>while (--j >= 0) { if (hs[j].handler === h) hs.splice(j, 1); }\<close>. The argument is the
  value of \<open>j\<close> before the decrement. Reading \<open>hs[j]\<close> past the end gives \<open>undefined\<close>,
  whose \<open>.handler\<close> raises.
\<close>

fun unuseScan :: "hentry list \<Rightarrow> jsval \<Rightarrow> nat \<Rightarrow> jserror + hentry list" where
  "unuseScan hs h 0 = Inr hs"
| "unuseScan hs h (Suc j) =
     (if j < length hs
      then (if Fn (handler (hs ! j)) = h then unuseScan (splice1 hs j) h j
            else unuseScan hs h j)
      else Inl TypeError)"

text \<open>The handler that one \<open>[match, handler]\<close> pair of \<open>unuse\<close> removes.\<close>

definition unuseTarget :: "jsval \<Rightarrow> jsval \<Rightarrow> jsval" where
  "unuseTarget m h = (if typeof m = ''function'' then m else h)"

definition unuse1 :: "hentry list \<Rightarrow> jsval \<Rightarrow> jserror + hentry list" where
  "unuse1 hs pair =
     rbind (destructure2 pair) (\<lambda>(m, h). unuseScan hs (unuseTarget m h) (length hs))"

fun unuseAll :: "hentry list \<Rightarrow> jsval list \<Rightarrow> jserror + hentry list" where
  "unuseAll hs [] = Inr hs"
| "unuseAll hs (p # ps) = rbind (unuse1 hs p) (\<lambda>hs'. unuseAll hs' ps)"

definition unuse :: "store \<Rightarrow> jsval \<Rightarrow> jsval \<Rightarrow> jserror + store" where
  "unuse st match h =
     rbind (unuseAll (handlers st) (matchesOf match h)) (\<lambda>hs. Inr (st\<lparr>handlers := hs\<rparr>))"

subsection \<open>The surroundings of a store\<close>

text \<open>
  What the sources take from outside: the bodies of the registered handler functions
  (each receives the shared context and may rewrite its fields), the \<open>test\<close> method of
  pattern objects, the runtime flag, the HTTP agent (its result after timeout and
  retries: a failure or a response object), the clock at the moment a call is made and
  at the moment a response is handled, and date parsing and printing.
  \<open>grace\<close> is \<open>store.GRACE\<close>, which the fetch functions read and no source at hand
  assigns. \<open>maxHops\<close> is the bound on dereferencing that the specification leaves to
  the implementer.

  \<open>settleOrder n\<close> is the order in which the agent settles the loads of a batch of \<open>n\<close>
  fetches, by position in the batch; a position it does not list is a load that never
  settles. \<open>frozenTree\<close> tells whether a tree is frozen, by its owner or by the
  accessor that handed it out: a write in place into a frozen tree has no effect.

  The remaining fields are the runtime where the embedding does not spell it out:
  \<open>plusElse\<close> and \<open>greaterElse\<close> are \<open>+\<close> and \<open>>\<close> on operands that are not both numbers,
  \<open>undefined\<close>, \<open>null\<close> or booleans; \<open>withProperty\<close> is an object that is no plain
  object after a property has been assigned to it; \<open>propertyName\<close> is the name under
  which a value that is no string addresses a property; \<open>accessorElse\<close> is what the path
  accessor makes of a write that the specification leaves open, the new node or
  \<open>None\<close> when it throws.
\<close>

type_synonym ctx = "(string \<times> jsval) list"

record env =
  hbody :: "nat \<Rightarrow> ctx \<Rightarrow> ctx"
  rtest :: "nat \<Rightarrow> jsval \<Rightarrow> bool"
  isBrowser :: bool
  agentGet :: "jsval \<Rightarrow> jsval \<Rightarrow> jsval + jsval"
  settleOrder :: "nat \<Rightarrow> nat list"
  now :: int
  nowLoaded :: int
  parseDate :: "jsval \<Rightarrow> jsval"
  utcString :: "jsval \<Rightarrow> jsval"
  grace :: jsval
  maxHops :: nat
  frozenTree :: "jsval \<Rightarrow> bool"
  plusElse :: "jsval \<Rightarrow> jsval \<Rightarrow> jsval"
  greaterElse :: "jsval \<Rightarrow> jsval \<Rightarrow> bool"
  withProperty :: "jsval \<Rightarrow> string \<Rightarrow> jsval \<Rightarrow> jsval"
  propertyName :: "jsval \<Rightarrow> string"
  accessorElse :: "jsval \<Rightarrow> string list \<Rightarrow> jsval \<Rightarrow> bool \<Rightarrow> jsval option"

section \<open>HandlerContext\<close>

text \<open>
  \<open>v.length\<close> as the loops over a signature read it. The arity of a function and a
  \<open>length\<close> property of an object are not modelled.
\<close>

fun lengthOf :: "jsval \<Rightarrow> jserror + nat" where
  "lengthOf (Str s) = Inr (length s)"
| "lengthOf (Arr xs) = Inr (length xs)"
| "lengthOf Undefined = Inl TypeError"
| "lengthOf Null = Inl TypeError"
| "lengthOf (Obj kvs) = (if map_of kvs ''length'' = None then Inr 0 else Inl Unsupported)"
| "lengthOf (Fn f) = Inl Unsupported"
| "lengthOf v = Inr 0"

text \<open>\<open>v[i]\<close> for a numeric index: an element, a character, or \<open>undefined\<close>.\<close>

fun elemAt :: "jsval \<Rightarrow> nat \<Rightarrow> jserror + jsval" where
  "elemAt (Arr xs) i = Inr (nthOrUndefined xs i)"
| "elemAt (Str s) i = Inr (if i < length s then Str [s ! i] else Undefined)"
| "elemAt Undefined i = Inl TypeError"
| "elemAt Null i = Inl TypeError"
| "elemAt v i = Inr (getProp v (indexName i))"

text \<open>\<open>v.slice(i)\<close>.\<close>

fun sliceFrom :: "jsval \<Rightarrow> nat \<Rightarrow> jserror + jsval" where
  "sliceFrom (Arr xs) i = Inr (Arr (drop i xs))"
| "sliceFrom (Str s) i = Inr (Str (drop i s))"
| "sliceFrom v i = Inl TypeError"

text \<open>
  The loop of the constructor, from index \<open>i\<close> with \<open>r\<close> iterations left:
  \<^verbatim>\<open>
  let prop = signature[i];
  if (prop.indexOf('...') == 0) { prop = prop.slice(3); this[prop] = args.slice(i); }
  else { this[prop] = args[i]; }
  \<close>
  A \<open>prop\<close> that is no string has no \<open>indexOf\<close> (an array has one of its own, which is
  not modelled).
\<close>

fun ctxCopy :: "jsval \<Rightarrow> jsval \<Rightarrow> nat \<Rightarrow> nat \<Rightarrow> ctx \<Rightarrow> jserror + ctx" where
  "ctxCopy signature args i 0 this = Inr this"
| "ctxCopy signature args i (Suc r) this =
     rbind (elemAt signature i) (\<lambda>prop.
       case prop of
         Str p \<Rightarrow>
           (if startsWith p ''...''
            then rbind (sliceFrom args i) (\<lambda>v.
                   ctxCopy signature args (Suc i) r (obj_set this (drop 3 p) v))
            else rbind (elemAt args i) (\<lambda>v.
                   ctxCopy signature args (Suc i) r (obj_set this p v)))
       | Arr xs \<Rightarrow> Inl Unsupported
       | _ \<Rightarrow> Inl TypeError)"

text \<open>
  \<open>constructor (store, signature, args)\<close>. The argument is the list of actual arguments
  of the \<open>new HandlerContext(...)\<close> expression; the three formal parameters are bound
  to its first three positions, a missing one is \<open>undefined\<close> and further ones are
  dropped, as the language does.
\<close>

definition newHandlerContext :: "jsval list \<Rightarrow> jserror + ctx" where
  "newHandlerContext actuals =
     (let store = nthOrUndefined actuals 0;
          signature = nthOrUndefined actuals 1;
          args = nthOrUndefined actuals 2
      in rbind (lengthOf signature) (\<lambda>n.
           ctxCopy signature args 0 n [(''signature'', signature), (''store'', store)]))"

text \<open>
  \<open>mergeOptions (options) { this.options = assign({}, options, this.options); }\<close>
\<close>

definition mergeOptions :: "ctx \<Rightarrow> jsval \<Rightarrow> ctx" where
  "mergeOptions this options =
     obj_set this ''options'' (Obj (assign [] [options, getProp (Obj this) ''options'']))"

text \<open>
  The loop of \<open>toArguments\<close>:
  \<^verbatim>\<open>
  let prop = this.signature[i];
  if (prop.indexOf('...') == 0) { prop = prop.slice(3); args.push(...this[prop]); }
  else { args.push(this[prop]); }
  \<close>
\<close>

fun toArgumentsLoop :: "ctx \<Rightarrow> jsval \<Rightarrow> nat \<Rightarrow> nat \<Rightarrow> jsval list \<Rightarrow> jserror + jsval list" where
  "toArgumentsLoop this signature i 0 args = Inr args"
| "toArgumentsLoop this signature i (Suc r) args =
     rbind (elemAt signature i) (\<lambda>prop.
       case prop of
         Str p \<Rightarrow>
           (if startsWith p ''...''
            then rbind (iterate (getProp (Obj this) (drop 3 p))) (\<lambda>vs.
                   toArgumentsLoop this signature (Suc i) r (args @ vs))
            else toArgumentsLoop this signature (Suc i) r (args @ [getProp (Obj this) p]))
       | Arr xs \<Rightarrow> Inl Unsupported
       | _ \<Rightarrow> Inl TypeError)"

definition toArguments :: "ctx \<Rightarrow> jserror + jsval list" where
  "toArguments this =
     (let signature = getProp (Obj this) ''signature''
      in rbind (lengthOf signature) (\<lambda>n. toArgumentsLoop this signature 0 n []))"

section \<open>Routing a handled method through the handlers\<close>

text \<open>
  \<^verbatim>\<open>
  _isMatchKey (key, match) {
    if (!match) return true;
    if (match instanceof RegExp) return match.test(key);
    if ('string' == typeof match) return key.indexOf(match) == 0;
    return false;
  }
  \<close>
\<close>

definition isMatchKey :: "env \<Rightarrow> jsval \<Rightarrow> jsval \<Rightarrow> jserror + bool" where
  "isMatchKey e key match =
     (if \<not> truthy match then Inr True
      else (case match of
              RegExp r \<Rightarrow> Inr (rtest e r key)
            | Str m \<Rightarrow>
                (case key of
                   Str k \<Rightarrow> Inr (startsWith k m)
                 | Arr xs \<Rightarrow> Inr (case xs of [] \<Rightarrow> False | x # _ \<Rightarrow> x = Str m)
                 | _ \<Rightarrow> Inl TypeError)
            | _ \<Rightarrow> Inr False))"

text \<open>
  \<open>for (...) { if (this._isMatchKey(key, this._handlers[i].match)) this._handlers[i].handler(context); }\<close>
  A handler is modelled by what it does to the context; a handler that itself calls
  the store is outside the model.
\<close>

fun runHandlers :: "env \<Rightarrow> jsval \<Rightarrow> hentry list \<Rightarrow> ctx \<Rightarrow> jserror + ctx" where
  "runHandlers e key [] c = Inr c"
| "runHandlers e key (h # hs) c =
     rbind (isMatchKey e key (hmatch h)) (\<lambda>m.
       runHandlers e key hs (if m then hbody e (handler h) c else c))"

text \<open>\<open>if (isKeyed && key && key.charAt(0) == '/') key = key.slice(1);\<close>\<close>

definition routeKey :: "bool \<Rightarrow> jsval \<Rightarrow> jserror + jsval" where
  "routeKey isKeyed key =
     (if isKeyed \<and> truthy key
      then (case key of
              Str k \<Rightarrow> Inr (Str (if startsWith k ''/'' then drop 1 k else k))
            | _ \<Rightarrow> Inl TypeError)
      else Inr key)"

text \<open>
  \<^verbatim>\<open>
  _routeHandledMethod (methodName, fn, signature, ...args) {
    const isKeyed = signature[0] == 'key';
    let [key = '', ...rest] = args;
    if (isKeyed && key && key.charAt(0) == '/') key = key.slice(1);
    if (this._handlers.length) {
      const context = new HandlerContext(this, methodName, signature, args);
      for (...) { ... handler(context) ... }
      const value = fn(this, ...context.toArguments());
      context.destroy();
      return value;
    }
    return fn(this, key, ...rest);
  }
  \<close>
  The signature is the list of parameter names the method was registered with. The
  implementation \<open>fn\<close> receives the store and the list of its further arguments.
  \<open>context.destroy()\<close> only clears the fields of the context, which nothing reads
  afterwards.
\<close>

definition routeHandledMethod ::
  "env \<Rightarrow> store \<Rightarrow> string \<Rightarrow> (store \<Rightarrow> jsval list \<Rightarrow> jserror + 'r) \<Rightarrow> string list \<Rightarrow>
   jsval list \<Rightarrow> jserror + 'r" where
  "routeHandledMethod e st methodName fn signature args =
     (let isKeyed = (case signature of [] \<Rightarrow> False | s # _ \<Rightarrow> s = ''key'');
          key0 = (case args of [] \<Rightarrow> Str [] | a # _ \<Rightarrow> if a = Undefined then Str [] else a);
          rest = drop 1 args
      in rbind (routeKey isKeyed key0) (\<lambda>key.
           if handlers st \<noteq> []
           then rbind (newHandlerContext
                         [StoreRef, Str methodName, Arr (map Str signature), Arr args]) (\<lambda>context.
                rbind (runHandlers e key (handlers st) context) (\<lambda>context'.
                rbind (toArguments context') (\<lambda>args'. fn st args')))
           else fn st (key # rest)))"

section \<open>Resolving references\<close>

definition REF_KEY :: string where
  "REF_KEY = ''__ref:''"

text \<open>
  \<^verbatim>\<open>
  _isRefValue (value) {
    if (!value) return false;
    return ('string' == typeof value && value.indexOf(REF_KEY) == 0);
  }
  \<close>
\<close>

definition isRefValue :: "jsval \<Rightarrow> bool" where
  "isRefValue value = (case value of Str s \<Rightarrow> s \<noteq> [] \<and> startsWith s REF_KEY | _ \<Rightarrow> False)"

text \<open>\<open>_parseRefKey\<close> on a string: \<open>ref.slice(REF_KEY.length)\<close>.\<close>

definition parseRefKey :: "string \<Rightarrow> string" where
  "parseRefKey ref = drop (length REF_KEY) ref"

text \<open>
  The walk of \<open>_resolveRefKey\<close> over the segments still to visit, \<open>idx\<close> being the index
  of the first of them:
  \<^verbatim>\<open>
  while (idx < n) {
    if (value[segs[idx]] == null) break;
    value = value[segs[idx]];
    if (this._isRefValue(value)) { ref = this._parseRefKey(value); break; }
    idx++;
  }
  \<close>
  The result is the reference found, if any, and the final \<open>idx\<close>. Inside the loop
  \<open>value\<close> is never \<open>null\<close> or \<open>undefined\<close>, except at the root.
\<close>

fun walk :: "jsval \<Rightarrow> string list \<Rightarrow> nat \<Rightarrow> string option \<times> nat" where
  "walk value [] idx = (None, idx)"
| "walk value (seg # segs) idx =
     (let next = getProp value seg
      in if isNullish next then (None, idx)
         else (case next of
                 Str s \<Rightarrow> (if isRefValue next then (Some (parseRefKey s), idx)
                           else walk next segs (Suc idx))
               | _ \<Rightarrow> walk next segs (Suc idx)))"

text \<open>
  \<^verbatim>\<open>
  _resolveRefKey (key) {
    if (this._isRefValue(key)) return this._parseRefKey(key);
    if (key.charAt(0) == '/') key = key.slice(1);
    const segs = key.split('/');
    const n = segs.length;
    let value = this._data; let idx = 0; let ref = key;
    while (idx < n) { ... }
    if (ref != key && idx < n - 1) ref += `/${segs.slice(idx + 1).join('/')}`;
    return ref;
  }
  \<close>
  for a string key. Reading a property of a root that is \<open>null\<close> or \<open>undefined\<close> raises.
\<close>

definition resolveRefKey :: "jsval \<Rightarrow> string \<Rightarrow> jserror + string" where
  "resolveRefKey d key0 =
     (if isRefValue (Str key0) then Inr (parseRefKey key0)
      else let key = (if startsWith key0 ''/'' then drop 1 key0 else key0);
               segs = split (CHR ''/'') key;
               n = length segs
           in if isNullish d then Inl TypeError
              else (case walk d segs 0 of
                      (found, idx) \<Rightarrow>
                        (let ref = (case found of None \<Rightarrow> key | Some r \<Rightarrow> r)
                         in Inr (if ref \<noteq> key \<and> idx + 1 < n
                                 then ref @ ''/'' @ join ''/'' (drop (idx + 1) segs)
                                 else ref))))"

section \<open>The path accessor\<close>

text \<open>
  Modelled from the spec: the path accessor (\<open>property.get\<close> and \<open>property.set\<close> of the
  package \<open>@yr/property\<close>, an external collaborator whose code is not among the sources).
  The specification describes it as: get or set a value at a path inside a nested
  mapping, with optional deep-merge and optional copy-on-write; the empty key addresses
  the root. Writing below a node that exists and is no mapping, and writing with the
  empty key, are left open by the specification and taken from the surroundings.
\<close>

fun pgetSegs :: "jsval \<Rightarrow> string list \<Rightarrow> jsval" where
  "pgetSegs t [] = t"
| "pgetSegs t (s # ss) = (if isNullish t then Undefined else pgetSegs (getProp t s) ss)"

definition propertyGet :: "jsval \<Rightarrow> string \<Rightarrow> jsval" where
  "propertyGet t key = (if key = [] then t else pgetSegs t (split (CHR ''/'') key))"


fun deepMerge :: "jsval \<Rightarrow> jsval \<Rightarrow> jsval"
  and mergeProps :: "(string \<times> jsval) list \<Rightarrow> (string \<times> jsval) list \<Rightarrow> (string \<times> jsval) list" where
  "deepMerge old (Obj new) = (case old of Obj kvs \<Rightarrow> Obj (mergeProps kvs new) | _ \<Rightarrow> Obj new)"
| "deepMerge old Undefined = Undefined"
| "deepMerge old Null = Null"
| "deepMerge old (Bool b) = Bool b"
| "deepMerge old (Num n) = Num n"
| "deepMerge old NaN = NaN"
| "deepMerge old (Str s) = Str s"
| "deepMerge old (Arr xs) = Arr xs"
| "deepMerge old (Fn f) = Fn f"
| "deepMerge old (RegExp r) = RegExp r"
| "deepMerge old StoreRef = StoreRef"
| "deepMerge old (Exn x) = Exn x"
| "mergeProps kvs [] = kvs"
| "mergeProps kvs ((k, v) # new) =
     mergeProps (obj_set kvs k (deepMerge (getProp (Obj kvs) k) v)) new"

text \<open>The tree with the value written at the path.\<close>

fun psetSegs :: "env \<Rightarrow> jsval \<Rightarrow> string list \<Rightarrow> jsval \<Rightarrow> bool \<Rightarrow> jserror + jsval" where
  "psetSegs e t [] v merge = Inr (if merge then deepMerge t v else v)"
| "psetSegs e t (s # ss) v merge =
     (case t of
        Obj kvs \<Rightarrow> rbind (psetSegs e (getProp t s) ss v merge) (\<lambda>c. Inr (Obj (obj_set kvs s c)))
      | Undefined \<Rightarrow> rbind (psetSegs e Undefined ss v merge) (\<lambda>c. Inr (Obj [(s, c)]))
      | _ \<Rightarrow> (case accessorElse e t (s # ss) v merge of
                None \<Rightarrow> Inl TypeError
              | Some t' \<Rightarrow> Inr t'))"

definition written :: "env \<Rightarrow> jsval \<Rightarrow> string \<Rightarrow> jsval \<Rightarrow> bool \<Rightarrow> jserror + jsval" where
  "written e t key v merge =
     (if key = []
      then (case accessorElse e t [] v merge of None \<Rightarrow> Inl TypeError | Some t' \<Rightarrow> Inr t')
      else psetSegs e t (split (CHR ''/'') key) v merge)"

text \<open>The values that are objects of the runtime, which an assignment can change in place.\<close>

fun isObject :: "jsval \<Rightarrow> bool" where
  "isObject (Obj kvs) = True"
| "isObject (Arr xs) = True"
| "isObject (Fn f) = True"
| "isObject (RegExp r) = True"
| "isObject StoreRef = True"
| "isObject (Exn x) = True"
| "isObject v = False"

text \<open>
  \<open>property.set(tree, key, value, options)\<close>. The result is the tree that the call
  returns and the tree that was passed in as it is after the call. Under copy-on-write
  (\<open>options.immutable\<close>) the tree passed in is left as it was and the tree returned
  is the one with the value written. Otherwise the value is written in place and the
  tree passed in is returned; a tree that is frozen, or that is no object, stays as it
  was.
\<close>

definition propertySet :: "env \<Rightarrow> jsval \<Rightarrow> string \<Rightarrow> jsval \<Rightarrow> jsval \<Rightarrow> jserror + (jsval \<times> jsval)" where
  "propertySet e t key v options =
     (if truthy (getProp options ''immutable'')
      then rbind (written e t key v (truthy (getProp options ''merge''))) (\<lambda>t'. Inr (t', t))
      else if frozenTree e t \<or> \<not> isObject t then Inr (t, t)
      else rbind (written e t key v (truthy (getProp options ''merge''))) (\<lambda>t'. Inr (t', t')))"

section \<open>Reading\<close>

text \<open>
  Modelled from the spec: \<open>get\<close> (\<open>methods/get.js\<close>, required by the store and by the fetch
  functions, is not among the sources). The specification: resolve the key, read the
  node; with \<open>resolveReferences\<close> (the default, and all the store's own \<open>get\<close> passes on)
  walk the result through mappings and sequences and substitute every nested alias by
  its dereferenced target value, under a bound whose excess is a reference-cycle
  error. Keys are resolved by \<open>_resolveRefKey\<close> of the sources, which raises on a key
  that is no string (it has no \<open>charAt\<close>). The first argument of \<open>deref\<close> is the number
  of alias hops still allowed.
\<close>

fun deref :: "nat \<Rightarrow> jsval \<Rightarrow> jsval \<Rightarrow> jserror + jsval"
  and derefList :: "nat \<Rightarrow> jsval \<Rightarrow> jsval list \<Rightarrow> jserror + jsval list"
  and derefProps :: "nat \<Rightarrow> jsval \<Rightarrow> (string \<times> jsval) list \<Rightarrow> jserror + (string \<times> jsval) list" where
  "deref hops d (Obj kvs) = rbind (derefProps hops d kvs) (\<lambda>kvs'. Inr (Obj kvs'))"
| "deref hops d (Arr xs) = rbind (derefList hops d xs) (\<lambda>xs'. Inr (Arr xs'))"
| "deref hops d (Str s) =
     (if isRefValue (Str s)
      then (case hops of
              0 \<Rightarrow> Inl ReferenceCycle
            | Suc h \<Rightarrow> rbind (resolveRefKey d (parseRefKey s)) (\<lambda>k. deref h d (propertyGet d k)))
      else Inr (Str s))"
| "deref hops d Undefined = Inr Undefined"
| "deref hops d Null = Inr Null"
| "deref hops d (Bool b) = Inr (Bool b)"
| "deref hops d (Num n) = Inr (Num n)"
| "deref hops d NaN = Inr NaN"
| "deref hops d (Fn f) = Inr (Fn f)"
| "deref hops d (RegExp r) = Inr (RegExp r)"
| "deref hops d StoreRef = Inr StoreRef"
| "deref hops d (Exn x) = Inr (Exn x)"
| "derefList hops d [] = Inr []"
| "derefList hops d (x # xs) =
     rbind (deref hops d x) (\<lambda>x'. rbind (derefList hops d xs) (\<lambda>xs'. Inr (x' # xs')))"
| "derefProps hops d [] = Inr []"
| "derefProps hops d ((k, v) # kvs) =
     rbind (deref hops d v) (\<lambda>v'. rbind (derefProps hops d kvs) (\<lambda>kvs'. Inr ((k, v') # kvs')))"


definition getImpl :: "env \<Rightarrow> store \<Rightarrow> jsval \<Rightarrow> jserror + jsval" where
  "getImpl e st key =
     (case key of
        Str k \<Rightarrow> rbind (resolveRefKey (data st) k) (\<lambda>rk.
                   deref (maxHops e) (data st) (propertyGet (data st) rk))
      | _ \<Rightarrow> if truthy key then Inl TypeError else deref (maxHops e) (data st) (data st))"

fun getEach :: "env \<Rightarrow> store \<Rightarrow> jsval list \<Rightarrow> jserror + jsval list" where
  "getEach e st [] = Inr []"
| "getEach e st (k # ks) =
     rbind (getImpl e st k) (\<lambda>v. rbind (getEach e st ks) (\<lambda>vs. Inr (v # vs)))"

text \<open>
  \<^verbatim>\<open>
  get (key) {
    if (!key || 'string' == typeof key) return get(this, key);
    if (Array.isArray(key)) return key.map((k) => get(this, k));
  }
  \<close>
\<close>

definition storeGet :: "env \<Rightarrow> store \<Rightarrow> jsval \<Rightarrow> jserror + jsval" where
  "storeGet e st key =
     (if \<not> truthy key \<or> typeof key = ''string'' then getImpl e st key
      else (case key of
              Arr ks \<Rightarrow> rbind (getEach e st ks) (\<lambda>vs. Inr (Arr vs))
            | _ \<Rightarrow> Inr Undefined))"

section \<open>Writing\<close>

text \<open>\<open>function reset (store, data) { store._data = data; }\<close>\<close>

definition resetImpl :: "store \<Rightarrow> jsval list \<Rightarrow> jserror + store" where
  "resetImpl st args = Inr (st\<lparr>data := nthOrUndefined args 0\<rparr>)"

text \<open>\<open>reset (data) { this._handledMethods.reset(data); }\<close>\<close>

definition storeReset :: "env \<Rightarrow> store \<Rightarrow> jsval \<Rightarrow> jserror + store" where
  "storeReset e st d = routeHandledMethod e st ''reset'' resetImpl [''data''] [d]"

text \<open>\<open>DEFAULT_OPTIONS = { immutable: runtime.isBrowser, merge: true }\<close>\<close>

definition DEFAULT_OPTIONS :: "env \<Rightarrow> jsval" where
  "DEFAULT_OPTIONS e = Obj [(''immutable'', Bool (isBrowser e)), (''merge'', Bool True)]"

text \<open>
  \<^verbatim>\<open>
  function doSet(store, key, value, options) {
    key = store._resolveRefKey(key);
    if (options.immutable) {
      const newData = property.set(store._data, key, value, options);
      if (newData !== store._data) store._data = newData; else store.debug(...);
      return;
    }
    property.set(store._data, key, value, options);
  }
  \<close>
  Under \<open>options.immutable\<close> the store takes the tree that the accessor returns.
  Otherwise the result of the accessor is dropped, and the store keeps the tree it had,
  as the accessor has left it. A key that is no string has no \<open>charAt\<close>.
\<close>

definition doSet :: "env \<Rightarrow> store \<Rightarrow> jsval \<Rightarrow> jsval \<Rightarrow> jsval \<Rightarrow> jserror + store" where
  "doSet e st key v options =
     (case key of
        Str k \<Rightarrow> rbind (resolveRefKey (data st) k) (\<lambda>rk.
                 rbind (propertySet e (data st) rk v options) (\<lambda>(newData, inPlace).
                   if truthy (getProp options ''immutable'')
                   then Inr (if newData \<noteq> data st then st\<lparr>data := newData\<rparr> else st)
                   else Inr (st\<lparr>data := inPlace\<rparr>)))
      | _ \<Rightarrow> Inl TypeError)"

fun doSetProps :: "env \<Rightarrow> store \<Rightarrow> jsval \<Rightarrow> string list \<Rightarrow> jsval \<Rightarrow> jserror + store" where
  "doSetProps e st obj [] options = Inr st"
| "doSetProps e st obj (k # ks) options =
     rbind (doSet e st (Str k) (getProp obj k) options) (\<lambda>st'. doSetProps e st' obj ks options)"

text \<open>\<open>const [k, v, o = {}] = triple\<close>.\<close>

definition destructure3 :: "jsval \<Rightarrow> jserror + (jsval \<times> jsval \<times> jsval)" where
  "destructure3 triple =
     rbind (iterate triple) (\<lambda>xs.
       Inr (nthOrUndefined xs 0, nthOrUndefined xs 1,
            (if nthOrUndefined xs 2 = Undefined then Obj [] else nthOrUndefined xs 2)))"

fun doSetTriples :: "env \<Rightarrow> store \<Rightarrow> jsval list \<Rightarrow> jserror + store" where
  "doSetTriples e st [] = Inr st"
| "doSetTriples e st (t # ts) =
     rbind (destructure3 t) (\<lambda>(k, v, opts).
     rbind (doSet e st k v (Obj (assign [] [DEFAULT_OPTIONS e, opts]))) (\<lambda>st'.
       doSetTriples e st' ts))"

text \<open>
  \<^verbatim>\<open>
  module.exports = function set(store, key, value, options) {
    if (!key) return;
    options = assign({}, DEFAULT_OPTIONS, options);
    if (typeof key === 'string') return doSet(store, key, value, options);
    if (isPlainObject(key)) { for (const k in key) doSet(store, k, key[k], options); }
    if (Array.isArray(key)) { for (...) { const [k, v, o = {}] = key[i];
                                           doSet(store, k, v, assign({}, DEFAULT_OPTIONS, o)); } }
  };
  \<close>
  The argument list is what the routing passes after the store.
\<close>


definition setImpl :: "env \<Rightarrow> store \<Rightarrow> jsval list \<Rightarrow> jserror + store" where
  "setImpl e st args =
     (let key = nthOrUndefined args 0;
          v = nthOrUndefined args 1;
          options = Obj (assign [] [DEFAULT_OPTIONS e, nthOrUndefined args 2])
      in if \<not> truthy key then Inr st
         else (case key of
                 Str k \<Rightarrow> doSet e st key v options
               | Obj kvs \<Rightarrow> doSetProps e st key (ownKeys key) options
               | Arr ts \<Rightarrow> doSetTriples e st ts
               | _ \<Rightarrow> Inr st))"

definition handledSet :: "env \<Rightarrow> store \<Rightarrow> jsval list \<Rightarrow> jserror + store" where
  "handledSet e st args =
     routeHandledMethod e st ''set'' (setImpl e) [''key'', ''value'', ''options''] args"

fun setProps :: "env \<Rightarrow> store \<Rightarrow> jsval \<Rightarrow> string list \<Rightarrow> jsval \<Rightarrow> jserror + store" where
  "setProps e st obj [] options = Inr st"
| "setProps e st obj (k # ks) options =
     rbind (handledSet e st [Str k, getProp obj k, options]) (\<lambda>st'.
       setProps e st' obj ks options)"

fun setSpread :: "env \<Rightarrow> store \<Rightarrow> jsval list \<Rightarrow> jserror + store" where
  "setSpread e st [] = Inr st"
| "setSpread e st (t # ts) =
     rbind (iterate t) (\<lambda>args. rbind (handledSet e st args) (\<lambda>st'. setSpread e st' ts))"

text \<open>
  \<^verbatim>\<open>
  set (key, value, options) {
    if (!this.isWritable || !key) return;
    if ('string' == typeof key) return this._handledMethods.set(key, value, options);
    if (isPlainObject(key)) { for (const k in key) this._handledMethods.set(k, key[k], options); }
    if (Array.isArray(key)) { for (...) this._handledMethods.set(...key[i]); }
  }
  \<close>
  The result is the store afterwards; an exception leaves no store to speak of.
\<close>

definition storeSet :: "env \<Rightarrow> store \<Rightarrow> jsval \<Rightarrow> jsval \<Rightarrow> jsval \<Rightarrow> jserror + store" where
  "storeSet e st key v options =
     (if \<not> isWritable st \<or> \<not> truthy key then Inr st
      else (case key of
              Str k \<Rightarrow> handledSet e st [key, v, options]
            | Obj kvs \<Rightarrow> setProps e st key (ownKeys key) options
            | Arr ts \<Rightarrow> setSpread e st ts
            | _ \<Rightarrow> Inr st))"

section \<open>Fetching\<close>

text \<open>
  A promise is modelled by the way it settles. A fetch is modelled in two steps, as it
  runs: what it does before it returns its promise (it reads the store and, when a load
  is needed, calls the agent), and what its callbacks do once the agent has settled the
  load. A batch takes the first step for every entry, in request order, before any load
  settles; the loads then settle in the order that the surroundings give. A single
  fetch is followed until its load has settled. The store in a result is the store
  once everything that settles has settled. An exception of the runtime inside a
  promise callback rejects the promise that the callback belongs to. \<open>Pending\<close> is a
  promise that nothing settles. \<open>Unsupported\<close> is never caught: it ends the run of the
  model.
\<close>

datatype outcome = Resolved jsval | Rejected jsval | Pending

definition EXPIRES_KEY :: string where
  "EXPIRES_KEY = ''__expires''"

text \<open>\<open>DEFAULT_LOAD_OPTIONS = { minExpiry: 60000, retry: 2, timeout: 5000 }\<close>\<close>

definition DEFAULT_LOAD_OPTIONS :: jsval where
  "DEFAULT_LOAD_OPTIONS =
     Obj [(''minExpiry'', Num 60000), (''retry'', Num 2), (''timeout'', Num 5000)]"

text \<open>
  The number that a number, \<open>undefined\<close>, \<open>null\<close> or a boolean converts to; \<open>a > b\<close> and
  \<open>a + b\<close>, computed when both operands convert in this way.
\<close>

fun toNumber :: "jsval \<Rightarrow> jsval option" where
  "toNumber (Num x) = Some (Num x)"
| "toNumber NaN = Some NaN"
| "toNumber Undefined = Some NaN"
| "toNumber Null = Some (Num 0)"
| "toNumber (Bool b) = Some (Num (if b then 1 else 0))"
| "toNumber v = None"

definition jsGreater :: "env \<Rightarrow> jsval \<Rightarrow> jsval \<Rightarrow> bool" where
  "jsGreater e a b =
     (case toNumber a of
        None \<Rightarrow> greaterElse e a b
      | Some a' \<Rightarrow>
          (case toNumber b of
             None \<Rightarrow> greaterElse e a b
           | Some b' \<Rightarrow> (case a' of Num x \<Rightarrow> (case b' of Num y \<Rightarrow> y < x | _ \<Rightarrow> False)
                                    | _ \<Rightarrow> False)))"

definition jsPlus :: "env \<Rightarrow> jsval \<Rightarrow> jsval \<Rightarrow> jsval" where
  "jsPlus e a b =
     (case toNumber a of
        None \<Rightarrow> plusElse e a b
      | Some a' \<Rightarrow>
          (case toNumber b of
             None \<Rightarrow> plusElse e a b
           | Some b' \<Rightarrow> (case a' of Num x \<Rightarrow> (case b' of Num y \<Rightarrow> Num (x + y) | _ \<Rightarrow> NaN)
                                    | _ \<Rightarrow> NaN)))"

text \<open>
  \<^verbatim>\<open>
  function hasExpired(obj, expiresKey) {
    return obj && isPlainObject(obj) && expiresKey in obj && Date.now() > obj[expiresKey];
  }
  \<close>
  as the condition that \<open>doFetch\<close> makes of it.
\<close>

definition hasExpired :: "env \<Rightarrow> jsval \<Rightarrow> string \<Rightarrow> bool" where
  "hasExpired e obj expiresKey =
     (truthy obj \<and> isPlainObject obj \<and> hasProp obj expiresKey
      \<and> jsGreater e (Num (now e)) (getProp obj expiresKey))"

text \<open>
  \<^verbatim>\<open>
  function getExpiry(dateString, minimum, grace) {
    const expires = Number(new Date(dateString)) + grace;
    const now = Date.now();
    return expires > now ? expires : now + minimum;
  }
  \<close>
  \<open>parseDate\<close> gives \<open>Number(new Date(dateString))\<close>, a number or \<open>NaN\<close>. A sum with
  \<open>undefined\<close> or \<open>NaN\<close> is \<open>NaN\<close>, which is greater than nothing.
\<close>

definition getExpiry :: "env \<Rightarrow> jsval \<Rightarrow> jsval \<Rightarrow> jsval" where
  "getExpiry e dateString minimum =
     (let expires = jsPlus e (parseDate e dateString) (grace e)
      in if jsGreater e expires (Num (nowLoaded e)) then expires
         else jsPlus e (Num (nowLoaded e)) minimum)"

text \<open>\<open>res.headers && 'expires' in res.headers\<close>: \<open>in\<close> raises on a primitive.\<close>

fun hasExpiresHeader :: "jsval \<Rightarrow> jserror + bool" where
  "hasExpiresHeader (Obj kvs) = Inr (hasProp (Obj kvs) ''expires'')"
| "hasExpiresHeader (Str s) = (if s = [] then Inr False else Inl TypeError)"
| "hasExpiresHeader (Num n) = (if n = 0 then Inr False else Inl TypeError)"
| "hasExpiresHeader (Bool b) = (if b then Inl TypeError else Inr False)"
| "hasExpiresHeader v = Inr False"

text \<open>
  \<open>data[store.EXPIRES_KEY] = ...\<close> in strict mode: a property of a plain object is
  written, a primitive raises. An array or another object takes the property and keeps
  its own nature.
\<close>

fun setExpires :: "env \<Rightarrow> jsval \<Rightarrow> jsval \<Rightarrow> jserror + jsval" where
  "setExpires e (Obj kvs) x = Inr (Obj (obj_set kvs EXPIRES_KEY x))"
| "setExpires e (Arr xs) x = Inr (withProperty e (Arr xs) EXPIRES_KEY x)"
| "setExpires e (Fn f) x = Inr (withProperty e (Fn f) EXPIRES_KEY x)"
| "setExpires e (RegExp r) x = Inr (withProperty e (RegExp r) EXPIRES_KEY x)"
| "setExpires e StoreRef x = Inr (withProperty e StoreRef EXPIRES_KEY x)"
| "setExpires e (Exn y) x = Inr (withProperty e (Exn y) EXPIRES_KEY x)"
| "setExpires e v x = Inl TypeError"

text \<open>
  The fulfilment callback of \<open>load\<close>:
  \<^verbatim>\<open>
  .then(res => {
    if (res.body) {
      let data = res.body;
      if (res.headers && 'expires' in res.headers) {
        data[store.EXPIRES_KEY] = getExpiry(res.headers.expires, minExpiry, store.GRACE);
      }
      store.set(key, data, options);
    }
    return res;
  })
  \<close>
  The expiry is written into the body that the response holds, so the response returned
  is the one with the stamped body.
\<close>

definition withBody :: "jsval \<Rightarrow> jsval \<Rightarrow> jsval" where
  "withBody res d = (case res of Obj kvs \<Rightarrow> Obj (obj_set kvs ''body'' d) | _ \<Rightarrow> res)"

definition loadThen :: "env \<Rightarrow> store \<Rightarrow> jsval \<Rightarrow> jsval \<Rightarrow> jsval \<Rightarrow> jserror + (jsval \<times> store)" where
  "loadThen e st key options res =
     (if isNullish res then Inl TypeError
      else if truthy (getProp res ''body'')
      then rbind (hasExpiresHeader (getProp res ''headers'')) (\<lambda>stamped.
           rbind (if stamped
                  then setExpires e (getProp res ''body'')
                         (getExpiry e (getProp (getProp res ''headers'') ''expires'')
                            (getProp options ''minExpiry''))
                  else Inr (getProp res ''body'')) (\<lambda>d.
           rbind (storeSet e st key d options) (\<lambda>st'. Inr (withBody res d, st'))))
      else Inr (res, st))"

text \<open>
  The rejection callback of \<open>load\<close>, which also receives what the fulfilment callback
  throws:
  \<^verbatim>\<open>
  .catch(err => {
    if (!staleIfError) store.set(key, undefined, options);
    throw err;
  })
  \<close>
  The result is the reason the promise of \<open>load\<close> is rejected with.
\<close>

definition loadCatch :: "env \<Rightarrow> store \<Rightarrow> jsval \<Rightarrow> jsval \<Rightarrow> jsval \<Rightarrow> jserror + (jsval \<times> store)" where
  "loadCatch e st key options err =
     (if \<not> truthy (getProp options ''staleIfError'')
      then (case storeSet e st key Undefined options of
              Inl Unsupported \<Rightarrow> Inl Unsupported
            | Inl x \<Rightarrow> Inr (Exn x, st)
            | Inr st' \<Rightarrow> Inr (err, st'))
      else Inr (err, st))"

text \<open>
  \<^verbatim>\<open>
  function load(store, key, url, options) {
    const { minExpiry, retry, staleIfError, timeout } = options;
    options.id = key;
    return agent.get(url, options).timeout(timeout).retry(retry).then(...).catch(...);
  }
  \<close>
  \<open>loadSettled\<close> is what the two callbacks do once the agent has settled the call, from
  the store as it is then. The result: the response the promise is fulfilled with, or
  the reason it is rejected with, and the store afterwards. \<open>load\<close> is the call to the
  agent followed until it has settled.
\<close>

definition loadSettled :: "env \<Rightarrow> store \<Rightarrow> jsval \<Rightarrow> jsval \<Rightarrow> jsval \<Rightarrow>
    jserror + ((jsval + jsval) \<times> store)" where
  "loadSettled e st key url options =
     (case agentGet e url options of
        Inr res \<Rightarrow>
          (case loadThen e st key options res of
             Inr (res', st') \<Rightarrow> Inr (Inr res', st')
           | Inl Unsupported \<Rightarrow> Inl Unsupported
           | Inl x \<Rightarrow> rbind (loadCatch e st key options (Exn x)) (\<lambda>(r, st'). Inr (Inl r, st')))
      | Inl err \<Rightarrow> rbind (loadCatch e st key options err) (\<lambda>(r, st'). Inr (Inl r, st')))"

definition load :: "env \<Rightarrow> store \<Rightarrow> jsval \<Rightarrow> jsval \<Rightarrow> (string \<times> jsval) list \<Rightarrow>
    jserror + ((jsval + jsval) \<times> store)" where
  "load e st key url options0 =
     (let options = Obj (obj_set options0 ''id'' key);
          st1 = st\<lparr>effects := effects st @ [AgentGet url options]\<rparr>
      in loadSettled e st1 key url options)"

definition response :: "jsval \<Rightarrow> jsval \<Rightarrow> jsval \<Rightarrow> jsval \<Rightarrow> jsval" where
  "response body duration headers key =
     Obj [(''body'', body), (''duration'', duration), (''headers'', headers), (''key'', key)]"

text \<open>
  The rejection callback in \<open>doFetch\<close>:
  \<^verbatim>\<open>
  .catch(err => {
    if (!staleIfError) return reject(err);
    resolve({ body: value, duration: 0, error: err,
              headers: { expires: new Date(Date.now() + minExpiry).toUTCString(),
                         status: err.status },
              key });
  })
  \<close>
  \<open>utcString\<close> stands for the printing of the date, given the sum. The callback sits
  on the inner chain, inside the executor of the promise that \<open>doFetch\<close> returns: when
  it throws (\<open>err.status\<close> of a reason that is \<open>null\<close> or \<open>undefined\<close>), the inner chain
  is rejected and the returned promise is settled by nobody.
\<close>

definition fetchCatch :: "env \<Rightarrow> (string \<times> jsval) list \<Rightarrow> jsval \<Rightarrow> jsval \<Rightarrow> jsval \<Rightarrow> outcome" where
  "fetchCatch e options value key err =
     (if \<not> truthy (getProp (Obj options) ''staleIfError'') then Rejected err
      else if isNullish err then Pending
      else Resolved (Obj [(''body'', value), (''duration'', Num 0), (''error'', err),
             (''headers'', Obj [(''expires'',
                                  utcString e (jsPlus e (Num (nowLoaded e))
                                                 (getProp (Obj options) ''minExpiry''))),
                                (''status'', getProp err ''status'')]),
             (''key'', key)]))"

text \<open>
  A load that \<open>doFetch\<close> has issued and that has not settled yet: the key, the address,
  the options (with the \<open>id\<close> that \<open>load\<close> has written into them) and the value that was
  read when the fetch started. A promise of \<open>fetch\<close> is settled when it is returned, or
  waits for such a load.
\<close>

record pending =
  pKey :: jsval
  pUrl :: jsval
  pOptions :: "(string \<times> jsval) list"
  pValue :: jsval

datatype promise = Settled outcome | Loading pending

text \<open>
  \<^verbatim>\<open>
  function doFetch(store, key, url, options) {
    const { minExpiry, staleWhileRevalidate, staleIfError } = options;
    const value = get(store, key);
    const isMissingOrExpired = !value || hasExpired(value, store.EXPIRES_KEY);
    if (isMissingOrExpired) {
      if (!url) return Promise.resolve({ body: value, duration: 0, headers: { status: 500 }, key });
      const promiseToLoad = new Promise((resolve, reject) => {
        load(store, key, url, options)
          .then(res => { resolve({ body: get(store, key), duration: res.duration,
                                   headers: res.headers, key }); })
          .catch(err => { ... });
      });
      if (!(value && staleWhileRevalidate)) return promiseToLoad;
      promiseToLoad.catch(err => {});
    }
    return Promise.resolve({ body: value, duration: 0, headers: { status: 200 }, key });
  }
  \<close>
  \<open>doFetchStart\<close> is the function up to its \<open>return\<close>: the executor of the new promise
  runs at once, so the agent has been called when the function returns.
  \<open>servedStale\<close> tells whether the promise returned for a load is the resolved one of
  the last line. \<open>doFetchSettle\<close> is what the callbacks do once the agent has settled the
  load, from the store as it is then, and the way the returned promise has settled
  afterwards.
\<close>

definition doFetchStart :: "env \<Rightarrow> store \<Rightarrow> jsval \<Rightarrow> jsval \<Rightarrow> (string \<times> jsval) list \<Rightarrow>
    jserror + (promise \<times> store)" where
  "doFetchStart e st key url options =
     rbind (getImpl e st key) (\<lambda>value.
       if \<not> truthy value \<or> hasExpired e value EXPIRES_KEY
       then (if \<not> truthy url
             then Inr (Settled (Resolved (response value (Num 0) (Obj [(''status'', Num 500)]) key)), st)
             else Inr (Loading \<lparr>pKey = key, pUrl = url, pOptions = obj_set options ''id'' key,
                                pValue = value\<rparr>,
                       st\<lparr>effects := effects st @ [AgentGet url (Obj (obj_set options ''id'' key))]\<rparr>))
       else Inr (Settled (Resolved (response value (Num 0) (Obj [(''status'', Num 200)]) key)), st))"

definition servedStale :: "pending \<Rightarrow> bool" where
  "servedStale p =
     (truthy (pValue p) \<and> truthy (getProp (Obj (pOptions p)) ''staleWhileRevalidate''))"

definition doFetchSettle :: "env \<Rightarrow> store \<Rightarrow> pending \<Rightarrow> jserror + (outcome \<times> store)" where
  "doFetchSettle e st p =
     rbind (loadSettled e st (pKey p) (pUrl p) (Obj (pOptions p))) (\<lambda>(r, st').
       let promiseToLoad =
             (case r of
                Inr res \<Rightarrow>
                  (case getImpl e st' (pKey p) of
                     Inr body \<Rightarrow> Resolved (response body (getProp res ''duration'')
                                            (getProp res ''headers'') (pKey p))
                   | Inl x \<Rightarrow> fetchCatch e (pOptions p) (pValue p) (pKey p) (Exn x))
              | Inl err \<Rightarrow> fetchCatch e (pOptions p) (pValue p) (pKey p) err)
       in Inr (if servedStale p
               then Resolved (response (pValue p) (Num 0) (Obj [(''status'', Num 200)]) (pKey p))
               else promiseToLoad, st'))"

text \<open>
  \<^verbatim>\<open>
  function fetch(store, key, url, options) {
    if (!key) return Promise.resolve({ body: undefined, duration: 0, headers: { status: 500 }, key });
    options = assign({}, DEFAULT_LOAD_OPTIONS, options);
    return doFetch(store, key, url, options);
  }
  \<close>
  The argument list is what the routing passes after the store. \<open>fetchStart\<close> is the
  function up to its \<open>return\<close>, \<open>fetchSettle\<close> the settling of the promise it has
  returned, and \<open>fetchImpl\<close> the fetch followed until its promise has settled.
\<close>

definition fetchStart :: "env \<Rightarrow> store \<Rightarrow> jsval list \<Rightarrow> jserror + (promise \<times> store)" where
  "fetchStart e st args =
     (let key = nthOrUndefined args 0;
          url = nthOrUndefined args 1;
          options = nthOrUndefined args 2
      in if \<not> truthy key
         then Inr (Settled (Resolved (response Undefined (Num 0) (Obj [(''status'', Num 500)]) key)), st)
         else doFetchStart e st key url (assign [] [DEFAULT_LOAD_OPTIONS, options]))"

definition fetchSettle :: "env \<Rightarrow> store \<Rightarrow> promise \<Rightarrow> jserror + (outcome \<times> store)" where
  "fetchSettle e st prom =
     (case prom of Settled out \<Rightarrow> Inr (out, st) | Loading p \<Rightarrow> doFetchSettle e st p)"

definition fetchImpl :: "env \<Rightarrow> store \<Rightarrow> jsval list \<Rightarrow> jserror + (outcome \<times> store)" where
  "fetchImpl e st args = rbind (fetchStart e st args) (\<lambda>(prom, st'). fetchSettle e st' prom)"

subsection \<open>Batches\<close>

text \<open>The state of a promise before any load has settled.\<close>

definition promised :: "promise \<Rightarrow> outcome" where
  "promised prom =
     (case prom of
        Settled out \<Rightarrow> out
      | Loading p \<Rightarrow>
          (if servedStale p
           then Resolved (response (pValue p) (Num 0) (Obj [(''status'', Num 200)]) (pKey p))
           else Pending))"

text \<open>
  The loads of a batch settling, one position after the other in the given order.
  \<open>settled\<close> holds the positions whose load has settled, \<open>outs\<close> the state of the
  promises. A position that is out of range, that has no load, or whose load has
  settled already, is passed over.
\<close>

fun settleIn :: "env \<Rightarrow> store \<Rightarrow> nat list \<Rightarrow> promise list \<Rightarrow> nat list \<Rightarrow> outcome list \<Rightarrow>
    jserror + (outcome list \<times> store)" where
  "settleIn e st [] proms settled outs = Inr (outs, st)"
| "settleIn e st (i # order) proms settled outs =
     (if i < length proms \<and> i \<notin> set settled
      then (case proms ! i of
              Loading p \<Rightarrow>
                rbind (doFetchSettle e st p) (\<lambda>(out, st').
                  settleIn e st' order proms (i # settled) (outs[i := out]))
            | Settled out \<Rightarrow> settleIn e st order proms settled outs)
      else settleIn e st order proms settled outs)"

text \<open>
  \<open>Promise.all\<close>: fulfilled with the values in the order of the promises when all are
  fulfilled; rejected with the reason of the first promise to be rejected; pending
  otherwise. The positions are looked at in the order in which they have settled.
\<close>

fun firstRejected :: "nat list \<Rightarrow> outcome list \<Rightarrow> jsval option" where
  "firstRejected [] outs = None"
| "firstRejected (i # order) outs =
     (if i < length outs
      then (case outs ! i of Rejected r \<Rightarrow> Some r | _ \<Rightarrow> firstRejected order outs)
      else firstRejected order outs)"

fun fulfilled :: "outcome list \<Rightarrow> jsval list option" where
  "fulfilled [] = Some []"
| "fulfilled (Resolved v # outs) = map_option ((#) v) (fulfilled outs)"
| "fulfilled (out # outs) = None"

definition promiseAll :: "nat list \<Rightarrow> outcome list \<Rightarrow> outcome" where
  "promiseAll order outs =
     (case firstRejected (order @ [0..<length outs]) outs of
        Some r \<Rightarrow> Rejected r
      | None \<Rightarrow> (case fulfilled outs of Some vs \<Rightarrow> Resolved (Arr vs) | None \<Rightarrow> Pending))"

text \<open>The promises of a batch settling, and what \<open>Promise.all\<close> makes of them.\<close>

definition settleAll :: "env \<Rightarrow> store \<Rightarrow> promise list \<Rightarrow> jserror + (outcome \<times> store)" where
  "settleAll e st proms =
     rbind (settleIn e st (settleOrder e (length proms)) proms [] (map promised proms))
       (\<lambda>(outs, st'). Inr (promiseAll (settleOrder e (length proms)) outs, st'))"

text \<open>
  The \<open>map\<close> of \<open>fetchAll\<close>, which gives the promises of the entries:
  \<^verbatim>\<open>
  keys.map(args => {
    const [key, url, opts = {}] = args;
    return fetch(store, key, url, assign({}, options, opts));
  })
  \<close>
\<close>

fun fetchEach :: "env \<Rightarrow> store \<Rightarrow> jsval list \<Rightarrow> jsval \<Rightarrow> jserror + (promise list \<times> store)" where
  "fetchEach e st [] options = Inr ([], st)"
| "fetchEach e st (a # as) options =
     rbind (destructure3 a) (\<lambda>(key, url, opts).
     rbind (fetchStart e st [key, url, Obj (assign [] [options, opts])]) (\<lambda>(prom, st').
     rbind (fetchEach e st' as options) (\<lambda>(proms, st'').
       Inr (prom # proms, st''))))"

text \<open>
  \<^verbatim>\<open>
  function fetchAll(store, keys, options) {
    if (Array.isArray(keys)) { return Promise.all(keys.map(...)); }
    return Promise.resolve([]);
  }
  \<close>
\<close>

definition fetchAll :: "env \<Rightarrow> store \<Rightarrow> jsval \<Rightarrow> jsval \<Rightarrow> jserror + (outcome \<times> store)" where
  "fetchAll e st keys options =
     (case keys of
        Arr entries \<Rightarrow>
          rbind (fetchEach e st entries options) (\<lambda>(proms, st'). settleAll e st' proms)
      | _ \<Rightarrow> Inr (Resolved (Arr []), st))"

section \<open>The fetch-capable store\<close>

text \<open>
  \<open>if (!this._fetchedKeys[key]) this._fetchedKeys[key] = true;\<close>
  The record of fetched keys is a plain object: reading a name that it inherits from
  \<open>Object.prototype\<close> gives a function (for \<open>__proto__\<close>, the prototype), which is
  truthy, so such a key is never recorded. A key that is recorded takes its place in
  the enumeration order.
\<close>

definition objectPrototypeNames :: "string list" where
  "objectPrototypeNames =
     [''constructor'', ''hasOwnProperty'', ''isPrototypeOf'', ''propertyIsEnumerable'',
      ''toLocaleString'', ''toString'', ''valueOf'', ''__defineGetter__'',
      ''__defineSetter__'', ''__lookupGetter__'', ''__lookupSetter__'', ''__proto__'']"

definition enumeratedKeys :: "string list \<Rightarrow> string list" where
  "enumeratedKeys ks = sort_key indexValue (filter isIndexName ks) @ filter (\<lambda>k. \<not> isIndexName k) ks"

definition track :: "store \<Rightarrow> string \<Rightarrow> store" where
  "track st k =
     (if k \<in> set (fetchedKeys st) \<or> k \<in> set objectPrototypeNames then st
      else st\<lparr>fetchedKeys := enumeratedKeys (fetchedKeys st @ [k])\<rparr>)"

definition handledFetchStart :: "env \<Rightarrow> store \<Rightarrow> jsval list \<Rightarrow> jserror + (promise \<times> store)" where
  "handledFetchStart e st args =
     routeHandledMethod e st ''fetch'' (fetchStart e) [''key'', ''url'', ''options''] args"

definition handledFetch :: "env \<Rightarrow> store \<Rightarrow> jsval list \<Rightarrow> jserror + (outcome \<times> store)" where
  "handledFetch e st args =
     rbind (handledFetchStart e st args) (\<lambda>(prom, st'). fetchSettle e st' prom)"

fun fetchProps :: "env \<Rightarrow> store \<Rightarrow> jsval \<Rightarrow> string list \<Rightarrow> jsval \<Rightarrow>
    jserror + (promise list \<times> store)" where
  "fetchProps e st obj [] options = Inr ([], st)"
| "fetchProps e st obj (k # ks) options =
     rbind (handledFetchStart e (track st k) [Str k, getProp obj k, options]) (\<lambda>(prom, st').
     rbind (fetchProps e st' obj ks options) (\<lambda>(proms, st'').
       Inr (prom # proms, st'')))"

text \<open>
  \<^verbatim>\<open>
  FetchableDataStore.prototype.fetch = function fetch(key, url, options) {
    if (!key) return;
    options = assign({}, DEFAULT_LOAD_OPTIONS, options);
    if ('string' == typeof key) {
      if (!this._fetchedKeys[key]) this._fetchedKeys[key] = true;
      return this._handledMethods.fetch(key, url, options);
    }
    if (isPlainObject(key)) {
      return Promise.all(Object.keys(key).map(function (k) { ... }));
    }
  };
  \<close>
  The result is the promise returned, if one is, and the store afterwards.
\<close>

definition storeFetch :: "env \<Rightarrow> store \<Rightarrow> jsval \<Rightarrow> jsval \<Rightarrow> jsval \<Rightarrow>
    jserror + (outcome option \<times> store)" where
  "storeFetch e st key url options0 =
     (if \<not> truthy key then Inr (None, st)
      else let options = Obj (assign [] [DEFAULT_LOAD_OPTIONS, options0])
           in (case key of
                 Str k \<Rightarrow> rbind (handledFetch e (track st k) [key, url, options]) (\<lambda>(out, st').
                            Inr (Some out, st'))
               | Obj kvs \<Rightarrow> rbind (fetchProps e st key (ownKeys key) options) (\<lambda>(proms, st').
                            rbind (settleAll e st' proms) (\<lambda>(out, st''). Inr (Some out, st'')))
               | _ \<Rightarrow> Inr (None, st)))"

text \<open>The body of the \<open>forEach\<close> in \<open>abort\<close>, for the keys of the list one after the other.\<close>

fun abortEach :: "env \<Rightarrow> store \<Rightarrow> jsval list \<Rightarrow> store" where
  "abortEach e st [] = st"
| "abortEach e st (k # ks) =
     abortEach e
       (st\<lparr>effects := effects st @ (if isBrowser e then [AgentAbortKey k] else []) @ [ClockCancel k],
           fetchedKeys := removeAll (case k of Str s \<Rightarrow> s | _ \<Rightarrow> propertyName e k)
                            (fetchedKeys st)\<rparr>) ks"

text \<open>
  \<^verbatim>\<open>
  FetchableDataStore.prototype.abort = function abort(key) {
    if (!key) {
      if (runtime.isBrowser) agent.abortAll(function (req) { return _this3._fetchedKeys[req.__agentId]; });
      for (var _key in this._fetchedKeys) { clock.cancel(_key); }
      this._fetchedKeys = {};
      return;
    }
    if ('string' == typeof key) key = [key];
    key.forEach(function (k) {
      if (runtime.isBrowser) agent.abortAll(k);
      clock.cancel(k);
      delete _this3._fetchedKeys[k];
    });
  };
  \<close>
  \<open>AgentAbortTracked ks\<close> records the call of \<open>abortAll\<close> with the predicate that reads the
  tag of a request in the record of fetched keys, \<open>ks\<close> being the keys recorded.
\<close>

definition abort :: "env \<Rightarrow> store \<Rightarrow> jsval \<Rightarrow> jserror + store" where
  "abort e st key =
     (if \<not> truthy key
      then Inr (st\<lparr>effects := effects st
                     @ (if isBrowser e then [AgentAbortTracked (fetchedKeys st)] else [])
                     @ map (\<lambda>k. ClockCancel (Str k)) (fetchedKeys st),
                   fetchedKeys := []\<rparr>)
      else (case key of
              Str k \<Rightarrow> Inr (abortEach e st [key])
            | Arr ks \<Rightarrow> Inr (abortEach e st ks)
            | _ \<Rightarrow> Inl TypeError))"

text \<open>
  \<^verbatim>\<open>
  destroy () {
    for (const key in this._cursors) { this._cursors[key].destroy(); }
    this.destroyed = true;
    this._cursors = {};
    this._data = {};
    this._handlers = [];
    this._serialisableKeys = {};
    this.removeAllListeners();
  }
  \<close>
  of the plain store; the cursors are known by their keys.
\<close>

definition baseDestroy :: "store \<Rightarrow> store" where
  "baseDestroy st =
     st\<lparr>effects := effects st @ map CursorDestroy (cursors st) @ [RemoveAllListeners],
        destroyed := True, cursors := [], data := Obj [], handlers := [],
        serialisableKeys := []\<rparr>"

text \<open>
  \<^verbatim>\<open>
  FetchableDataStore.prototype.destroy = function destroy() {
    this.abort();
    _DataStore.prototype.destroy.call(this);
  };
  \<close>
\<close>

definition destroy :: "env \<Rightarrow> store \<Rightarrow> jserror + store" where
  "destroy e st = rbind (abort e st Undefined) (\<lambda>st'. Inr (baseDestroy st'))"

section \<open>Dumping\<close>



section \<open>Notions used in the statements\<close>

subsection \<open>Values and paths that reading and writing agree on\<close>

text \<open>
  A value that holds no alias, at any depth: dereferencing has nothing to substitute in
  it.
\<close>

fun aliasFree :: "jsval \<Rightarrow> bool"
  and aliasFreeList :: "jsval list \<Rightarrow> bool"
  and aliasFreeProps :: "(string \<times> jsval) list \<Rightarrow> bool" where
  "aliasFree (Obj kvs) = aliasFreeProps kvs"
| "aliasFree (Arr xs) = aliasFreeList xs"
| "aliasFree (Str s) = (\<not> isRefValue (Str s))"
| "aliasFree Undefined = True"
| "aliasFree Null = True"
| "aliasFree (Bool b) = True"
| "aliasFree (Num n) = True"
| "aliasFree NaN = True"
| "aliasFree (Fn f) = True"
| "aliasFree (RegExp r) = True"
| "aliasFree StoreRef = True"
| "aliasFree (Exn x) = True"
| "aliasFreeList [] = True"
| "aliasFreeList (x # xs) = (aliasFree x \<and> aliasFreeList xs)"
| "aliasFreeProps [] = True"
| "aliasFreeProps ((k, v) # kvs) = (aliasFree v \<and> aliasFreeProps kvs)"

text \<open>
  A path along which the accessor can write: every node above the last segment is a
  mapping, or is absent together with everything below it.
\<close>

fun mappingPath :: "jsval \<Rightarrow> string list \<Rightarrow> bool" where
  "mappingPath t [] = True"
| "mappingPath t (s # ss) =
     (case t of Obj kvs \<Rightarrow> mappingPath (getProp t s) ss | Undefined \<Rightarrow> True | _ \<Rightarrow> False)"

subsection \<open>Nodes on a path\<close>

text \<open>
  The value reached from a tree by reading the segments one after the other; a property
  of \<open>undefined\<close> or \<open>null\<close> reads as \<open>undefined\<close> here.
\<close>

fun nodeAt :: "jsval \<Rightarrow> string list \<Rightarrow> jsval" where
  "nodeAt t [] = t"
| "nodeAt t (s # ss) = nodeAt (getProp t s) ss"

text \<open>\<open>xs\<close> is an initial part of \<open>ys\<close>: the node at \<open>xs\<close> lies on the path to the node at \<open>ys\<close>.\<close>

definition leads :: "string list \<Rightarrow> string list \<Rightarrow> bool" where
  "leads xs ys = (take (length xs) ys = xs)"

subsection \<open>What a batch entry asks for\<close>










subsection \<open>Writes that the embedding follows\<close>

text \<open>
  The result of a write on a store: an exception of the runtime, or the store with
  another tree and nothing else changed.
\<close>

definition writesOnly :: "store \<Rightarrow> jserror + store \<Rightarrow> bool" where
  "writesOnly st m =
     (case m of Inl x \<Rightarrow> x \<noteq> Unsupported | Inr st' \<Rightarrow> st' = st\<lparr>data := data st'\<rparr>)"

section \<open>Sample surroundings and stores\<close>

text \<open>
  Concrete inputs for the evaluations below. In \<open>sampleEnv\<close> handlers leave the context
  as it is, no pattern matches, the runtime is a server, the agent answers
  \<open>http://localhost/beep\<close> with a body, \<open>http://localhost/empty\<close> with an empty body, and
  fails with status 500 for every other address, the loads of a batch settle in request
  order, and no tree is frozen. In \<open>frozenEnv\<close> every tree is frozen; in \<open>lastFirstEnv\<close>
  the loads of a batch settle in the reverse of the request order.
\<close>

definition sampleAgent :: "jsval \<Rightarrow> jsval \<Rightarrow> jsval + jsval" where
  "sampleAgent url options =
     (if url = Str ''http://localhost/beep''
      then Inr (Obj [(''body'', Obj [(''beep'', Str ''foo'')]), (''duration'', Num 1000),
                     (''headers'', Obj [])])
      else if url = Str ''http://localhost/empty''
      then Inr (Obj [(''body'', Str []), (''duration'', Num 3), (''headers'', Obj [])])
      else Inl (Obj [(''status'', Num 500)]))"

definition sampleEnv :: env where
  "sampleEnv =
     \<lparr>hbody = (\<lambda>h c. c), rtest = (\<lambda>r k. False), isBrowser = False, agentGet = sampleAgent,
      settleOrder = (\<lambda>n. [0..<n]),
      now = 1000, nowLoaded = 2000, parseDate = (\<lambda>d. NaN), utcString = (\<lambda>t. Str ''later''),
      grace = Undefined, maxHops = 8, frozenTree = (\<lambda>t. False), plusElse = (\<lambda>a b. NaN),
      greaterElse = (\<lambda>a b. False), withProperty = (\<lambda>v k x. v), propertyName = (\<lambda>v. []),
      accessorElse = (\<lambda>t segs v m. None)\<rparr>"

definition browserEnv :: env where
  "browserEnv = sampleEnv\<lparr>isBrowser := True\<rparr>"

definition frozenEnv :: env where
  "frozenEnv = sampleEnv\<lparr>frozenTree := (\<lambda>t. True)\<rparr>"

definition lastFirstEnv :: env where
  "lastFirstEnv = sampleEnv\<lparr>settleOrder := (\<lambda>n. rev [0..<n])\<rparr>"



definition emptyStore :: store where
  "emptyStore =
     \<lparr>destroyed = False, isWritable = True, cursors = [], data = Obj [], handlers = [],
      serialisableKeys = [], fetchedKeys = [], effects = []\<rparr>"

text \<open>
  A store that holds \<open>{bat: true}\<close> at \<open>foo/bar\<close>, and at \<open>stuff\<close> an alias of \<open>foo/bar\<close>.
\<close>

definition readmeStore :: store where
  "readmeStore =
     emptyStore\<lparr>data := Obj [(''foo'', Obj [(''bar'', Obj [(''bat'', Bool True)])]),
                            (''stuff'', Str ''__ref:foo/bar'')]\<rparr>"

text \<open>A store on which one handler is registered for every key.\<close>

definition observedStore :: store where
  "observedStore = emptyStore\<lparr>handlers := [\<lparr>handler = 0, hmatch = Str []\<rparr>]\<rparr>"

section \<open>Properties of objects\<close>

lemma map_of_obj_set: "map_of (obj_set kvs k v) = (map_of kvs)(k \<mapsto> v)"
  by (induction kvs k v rule: obj_set.induct) auto

lemma map_of_live: "map_of (live seen kvs) k = (if k \<in> set seen then None else map_of kvs k)"
  by (induction seen kvs rule: live.induct) auto

lemma fst_live: "set (map fst (live seen kvs)) \<inter> set seen = {}"
  by (induction seen kvs rule: live.induct) auto

lemma distinct_live: "distinct (map fst (live seen kvs))"
proof (induction seen kvs rule: live.induct)
  case (1 seen)
  then show ?case by simp
next
  case (2 seen k v kvs)
  have "k \<notin> set (map fst (live (k # seen) kvs))"
    using fst_live [of "k # seen" kvs] by auto
  with 2 show ?case by simp
qed


lemma set_enumerated: "set (enumerated kvs) = set kvs"
  by (auto simp: enumerated_def)

lemma distinct_enumerated:
  assumes "distinct (map fst kvs)"
  shows "distinct (map fst (enumerated kvs))"
proof -
  from assms have d: "distinct kvs" and i: "inj_on fst (set kvs)"
    by (simp_all add: distinct_map)
  have "distinct (enumerated kvs)"
    using d by (auto simp: enumerated_def)
  moreover have "inj_on fst (set (enumerated kvs))"
    using i by (simp add: set_enumerated)
  ultimately show ?thesis by (simp add: distinct_map)
qed

lemma map_of_enumerated:
  "distinct (map fst kvs) \<Longrightarrow> map_of (enumerated kvs) = map_of kvs"
  using distinct_enumerated [of kvs] set_enumerated [of kvs]
  by (simp add: map_of_inject_set)

lemma distinct_ownProps: "distinct (map fst (ownProps v))"
  by (simp add: ownProps_def distinct_enumerated distinct_live)

lemma map_of_ownProps: "map_of (ownProps v) = map_of (rawProps v)"
  by (rule ext) (simp add: ownProps_def map_of_enumerated distinct_live map_of_live)


lemma map_of_assignProps: "map_of (assignProps to kvs) = map_of to ++ map_of (rev kvs)"
proof (induction to kvs rule: assignProps.induct)
  case (1 to)
  then show ?case by simp
next
  case (2 to k v kvs)
  have "map_of (assignProps (obj_set to k v) kvs) = (map_of to)(k \<mapsto> v) ++ map_of (rev kvs)"
    using 2 by (simp only: map_of_obj_set)
  also have "\<dots> = map_of to ++ map_of (rev ((k, v) # kvs))"
    by (rule ext) (simp add: map_add_def split: option.splits)
  finally show ?case by simp
qed

lemma map_of_rev_distinct: "distinct (map fst kvs) \<Longrightarrow> map_of (rev kvs) = map_of kvs"
  by (metis distinct_rev map_of_inject_set rev_map set_rev)

lemma map_of_assignProps_ownProps:
  "map_of (assignProps to (ownProps v)) = map_of to ++ map_of (rawProps v)"
  using map_of_rev_distinct [OF distinct_ownProps, of v]
  by (simp add: map_of_assignProps map_of_ownProps)

lemma map_of_assign2:
  "map_of (assignProps (assignProps [] (ownProps a)) (ownProps b))
     = map_of (rawProps a) ++ map_of (rawProps b)"
  by (simp add: map_of_assignProps_ownProps)

lemma getProp_assign2:
  "getProp (Obj (assignProps (assignProps [] (ownProps a)) (ownProps b))) k
     = (if hasProp b k then getProp b k else getProp a k)"
  by (auto simp: getProp_def hasProp_def map_of_assign2 map_add_def split: option.splits)

lemma hasProp_assign2:
  "hasProp (Obj (assignProps (assignProps [] (ownProps a)) (ownProps b))) k
     = (hasProp b k \<or> hasProp a k)"
  by (auto simp: hasProp_def map_of_assign2 map_add_def split: option.splits)

lemma getProp_obj_set:
  "getProp (Obj (obj_set kvs k v)) k' = (if k' = k then v else getProp (Obj kvs) k')"
  by (simp add: getProp_def map_of_obj_set)

section \<open>Unregistering handlers\<close>

text \<open>
  The downward scan never reads past the end of the list, whatever it removes on the
  way, and what it leaves of the part it has visited are the entries with another
  handler.
\<close>

lemma unuseScan_filter:
  "j \<le> length hs \<Longrightarrow>
   unuseScan hs h j = Inr (filter (\<lambda>e. Fn (handler e) \<noteq> h) (take j hs) @ drop j hs)"
proof (induction j arbitrary: hs)
  case 0
  then show ?case by simp
next
  case (Suc j)
  then have lt: "j < length hs" by simp
  show ?case
  proof (cases "Fn (handler (hs ! j)) = h")
    case True
    have len: "j \<le> length (splice1 hs j)" using lt by (simp add: splice1_def)
    have tk: "take j (splice1 hs j) = take j hs" using lt by (simp add: splice1_def)
    have dr: "drop j (splice1 hs j) = drop (Suc j) hs" using lt by (simp add: splice1_def)
    show ?thesis
      using lt True Suc.IH [OF len] by (simp add: tk dr take_Suc_conv_app_nth)
  next
    case False
    have len: "j \<le> length hs" using lt by simp
    show ?thesis
      using lt False Suc.IH [OF len] by (simp add: take_Suc_conv_app_nth Cons_nth_drop_Suc)
  qed
qed

lemma unuse1_filter:
  "unuse1 hs (Arr [m, h]) = Inr (filter (\<lambda>e. Fn (handler e) \<noteq> unuseTarget m h) hs)"
  by (simp add: unuse1_def destructure2_def rbind_def nthOrUndefined_def unuseScan_filter)

lemma unuseAll_filter:
  "unuseAll hs (map (\<lambda>(m, h). Arr [m, h]) ps) =
   Inr (filter (\<lambda>e. Fn (handler e) \<notin> set (map (\<lambda>(m, h). unuseTarget m h) ps)) hs)"
proof (induction ps arbitrary: hs)
  case Nil
  then show ?case by simp
next
  case (Cons p ps)
  obtain m h where p: "p = (m, h)" by (cases p)
  show ?case
    by (simp add: p unuse1_filter rbind_def Cons.IH)
qed

text \<open>
  Claim C8. \<open>unuse\<close> given one matcher and one handler removes exactly the registered
  entries whose handler is the given function (the matcher itself, when a function is
  passed in its place), whatever matcher an entry was registered with, keeps every
  other entry in its place and changes nothing else of the store; given a list of
  \<open>[matcher, handler]\<close> pairs it removes exactly the entries whose handler is the handler
  of one of the pairs. The downward scan that removes in place raises nothing.
\<close>

theorem unuse_removes_exactly:
  "unuse st (Arr (map (\<lambda>(m, h). Arr [m, h]) ps)) x =
     Inr (st\<lparr>handlers :=
              filter (\<lambda>e. Fn (handler e) \<notin> set (map (\<lambda>(m, h). unuseTarget m h) ps))
                (handlers st)\<rparr>)
   \<and> (\<not> isArray m \<longrightarrow>
        unuse st m h =
          Inr (st\<lparr>handlers := filter (\<lambda>e. Fn (handler e) \<noteq> unuseTarget m h) (handlers st)\<rparr>))"
proof
  show "unuse st (Arr (map (\<lambda>(m, h). Arr [m, h]) ps)) x =
     Inr (st\<lparr>handlers :=
              filter (\<lambda>e. Fn (handler e) \<notin> set (map (\<lambda>(m, h). unuseTarget m h) ps))
                (handlers st)\<rparr>)"
    by (simp add: unuse_def matchesOf_def unuseAll_filter rbind_def)
next
  show "\<not> isArray m \<longrightarrow>
        unuse st m h =
          Inr (st\<lparr>handlers := filter (\<lambda>e. Fn (handler e) \<noteq> unuseTarget m h) (handlers st)\<rparr>)"
  proof
    assume "\<not> isArray m"
    then have "matchesOf m h = [Arr [m, h]]"
      by (cases m) (simp_all add: matchesOf_def)
    then show "unuse st m h =
          Inr (st\<lparr>handlers := filter (\<lambda>e. Fn (handler e) \<noteq> unuseTarget m h) (handlers st)\<rparr>)"
      by (simp add: unuse_def unuse1_filter rbind_def)
  qed
qed

theorem unuse_removes_exactly_witness:
  "\<not> isArray (Str ''bar'')
   \<and> unuse \<lparr>destroyed = False, isWritable = True, cursors = [], data = Obj [],
            handlers = [\<lparr>handler = 1, hmatch = Str ''foo''\<rparr>, \<lparr>handler = 2, hmatch = RegExp 0\<rparr>,
                        \<lparr>handler = 1, hmatch = Str []\<rparr>],
            serialisableKeys = [], fetchedKeys = [], effects = []\<rparr> (Str ''bar'') (Fn 1)
     = Inr \<lparr>destroyed = False, isWritable = True, cursors = [], data = Obj [],
            handlers = [\<lparr>handler = 2, hmatch = RegExp 0\<rparr>],
            serialisableKeys = [], fetchedKeys = [], effects = []\<rparr>"
  using unuse_removes_exactly
    [of "\<lparr>destroyed = False, isWritable = True, cursors = [], data = Obj [],
            handlers = [\<lparr>handler = 1, hmatch = Str ''foo''\<rparr>, \<lparr>handler = 2, hmatch = RegExp 0\<rparr>,
                        \<lparr>handler = 1, hmatch = Str []\<rparr>],
            serialisableKeys = [], fetchedKeys = [], effects = []\<rparr>" "[]" Undefined
        "Str ''bar''" "Fn 1"]
  by (simp add: unuseTarget_def)

section \<open>Merging options into a handler context\<close>

text \<open>
  Claim C10. After \<open>mergeOptions\<close> the options of the context are a plain object that
  has a field exactly when the context's options or the passed object had it; a field
  the context's options already had keeps the context's value, a field they had not
  takes the value of the passed object; the other fields of the context are unchanged.
\<close>

theorem mergeOptions_existing_win:
  "isPlainObject (getProp (Obj (mergeOptions this options)) ''options'')
   \<and> hasProp (getProp (Obj (mergeOptions this options)) ''options'') f
       = (hasProp (getProp (Obj this) ''options'') f \<or> hasProp options f)
   \<and> getProp (getProp (Obj (mergeOptions this options)) ''options'') f
       = (if hasProp (getProp (Obj this) ''options'') f
          then getProp (getProp (Obj this) ''options'') f
          else getProp options f)
   \<and> (g \<noteq> ''options'' \<longrightarrow>
        getProp (Obj (mergeOptions this options)) g = getProp (Obj this) g)"
  by (simp add: mergeOptions_def getProp_obj_set getProp_assign2 hasProp_assign2)

theorem mergeOptions_existing_win_witness:
  "''key'' \<noteq> ''options''
   \<and> getProp (getProp (Obj (mergeOptions
       [(''key'', Str ''foo''), (''options'', Obj [(''merge'', Bool False)])]
       (Obj [(''merge'', Bool True), (''immutable'', Bool True)]))) ''options'') ''merge''
     = Bool False
   \<and> getProp (getProp (Obj (mergeOptions
       [(''key'', Str ''foo''), (''options'', Obj [(''merge'', Bool False)])]
       (Obj [(''merge'', Bool True), (''immutable'', Bool True)]))) ''options'') ''immutable''
     = Bool True
   \<and> getProp (Obj (mergeOptions
       [(''key'', Str ''foo''), (''options'', Obj [(''merge'', Bool False)])]
       (Obj [(''merge'', Bool True), (''immutable'', Bool True)]))) ''key'' = Str ''foo''"
  using mergeOptions_existing_win
    [of "[(''key'', Str ''foo''), (''options'', Obj [(''merge'', Bool False)])]"
        "Obj [(''merge'', Bool True), (''immutable'', Bool True)]" "''merge'' " "''key''"]
    mergeOptions_existing_win
    [of "[(''key'', Str ''foo''), (''options'', Obj [(''merge'', Bool False)])]"
        "Obj [(''merge'', Bool True), (''immutable'', Bool True)]" "''immutable''" "''key''"]
  by (simp add: getProp_def hasProp_def)

section \<open>Misuse\<close>

text \<open>
  Claim C7. \<open>set\<close> on a store that is not writable, \<open>set\<close> with a key that is empty or
  missing (any falsy key), and \<open>fetch\<close> of the fetch-capable store with such a key raise
  nothing and return with the store exactly as it was: the data tree, the handlers and
  the tracked keys are untouched and no collaborator is called. \<open>fetch\<close> returns no
  promise then.
\<close>

theorem misuse_is_noop:
  "(\<not> isWritable st \<or> \<not> truthy key \<longrightarrow> storeSet e st key v options = Inr st)
   \<and> (\<not> truthy k \<longrightarrow> storeFetch e st k url opts = Inr (None, st))"
  by (simp add: storeSet_def storeFetch_def)

theorem misuse_is_noop_witness:
  "\<not> isWritable (emptyStore\<lparr>isWritable := False\<rparr>)
   \<and> storeSet sampleEnv (emptyStore\<lparr>isWritable := False\<rparr>) (Str ''foo'') (Num 1) Undefined
       = Inr (emptyStore\<lparr>isWritable := False\<rparr>)
   \<and> \<not> truthy (Str [])
   \<and> storeSet sampleEnv emptyStore (Str []) (Num 1) Undefined = Inr emptyStore
   \<and> \<not> truthy Undefined
   \<and> storeFetch sampleEnv emptyStore Undefined (Str ''http://localhost/beep'') Undefined
       = Inr (None, emptyStore)"
  using misuse_is_noop [of "emptyStore\<lparr>isWritable := False\<rparr>" "Str ''foo''" sampleEnv "Num 1" Undefined
                           Undefined "Str ''http://localhost/beep''" Undefined]
        misuse_is_noop [of emptyStore "Str []" sampleEnv "Num 1" Undefined
                           Undefined "Str ''http://localhost/beep''" Undefined]
  by (simp add: emptyStore_def)

section \<open>Loading\<close>

text \<open>
  Claim C9. When the agent answers a load with a response whose body is falsy, the
  promise of \<open>load\<close> is fulfilled with that response and the store is as before but for
  the record of the one call to the agent: nothing is written at the key, the value
  there and its expiry are what they were.
\<close>

theorem load_empty_body_writes_nothing:
  assumes "agentGet e url (Obj (obj_set options ''id'' key)) = Inr res"
      and "\<not> isNullish res"
      and "\<not> truthy (getProp res ''body'')"
    shows "load e st key url options =
             Inr (Inr res, st\<lparr>effects := effects st @ [AgentGet url (Obj (obj_set options ''id'' key))]\<rparr>)"
  using assms by (simp add: load_def loadSettled_def loadThen_def Let_def)

theorem load_empty_body_writes_nothing_witness:
  "agentGet sampleEnv (Str ''http://localhost/empty'') (Obj (obj_set [] ''id'' (Str ''beep'')))
     = Inr (Obj [(''body'', Str []), (''duration'', Num 3), (''headers'', Obj [])])
   \<and> \<not> isNullish (Obj [(''body'', Str []), (''duration'', Num 3), (''headers'', Obj [])])
   \<and> \<not> truthy (getProp (Obj [(''body'', Str []), (''duration'', Num 3), (''headers'', Obj [])]) ''body'')
   \<and> load sampleEnv (emptyStore\<lparr>data := Obj [(''beep'', Num 7)]\<rparr>) (Str ''beep'')
        (Str ''http://localhost/empty'') []
     = Inr (Inr (Obj [(''body'', Str []), (''duration'', Num 3), (''headers'', Obj [])]),
            emptyStore\<lparr>data := Obj [(''beep'', Num 7)],
                       effects := [AgentGet (Str ''http://localhost/empty'') (Obj [(''id'', Str ''beep'')])]\<rparr>)"
proof -
  have a: "agentGet sampleEnv (Str ''http://localhost/empty'') (Obj (obj_set [] ''id'' (Str ''beep'')))
     = Inr (Obj [(''body'', Str []), (''duration'', Num 3), (''headers'', Obj [])])"
    by (simp add: sampleEnv_def sampleAgent_def)
  have b: "\<not> isNullish (Obj [(''body'', Str []), (''duration'', Num 3), (''headers'', Obj [])])"
    by simp
  have c: "\<not> truthy (getProp (Obj [(''body'', Str []), (''duration'', Num 3), (''headers'', Obj [])]) ''body'')"
    by (simp add: getProp_def)
  show ?thesis
    using a b c load_empty_body_writes_nothing [OF a b c, of "emptyStore\<lparr>data := Obj [(''beep'', Num 7)]\<rparr>"]
    by (simp add: emptyStore_def)
qed

section \<open>A fresh value\<close>

lemma data_track: "data (track st k) = data st"
  by (simp add: track_def)

lemma getImpl_track: "getImpl e (track st k) key = getImpl e st key"
  by (simp only: getImpl_def data_track)

lemma fetchImpl_fresh:
  assumes "k \<noteq> []"
      and "getImpl e st (Str k) = Inr (Obj kvs)"
      and "map_of kvs EXPIRES_KEY = Some (Num x)"
      and "now e \<le> x"
    shows "fetchImpl e st [Str k, url, options] =
             Inr (Resolved (response (Obj kvs) (Num 0) (Obj [(''status'', Num 200)]) (Str k)), st)"
  using assms
  by (simp add: fetchImpl_def fetchStart_def doFetchStart_def fetchSettle_def nthOrUndefined_def
      rbind_def hasExpired_def jsGreater_def hasProp_def getProp_def)

text \<open>
  Claim C6. When the value read at the key is a plain object whose expiry is not
  before the present moment (in particular when it lies in the future), \<open>fetch\<close>
  resolves at once with that value and status 200, and the store is exactly as before:
  no call to the agent is recorded. Through the \<open>fetch\<close> method of a store without
  handlers the same holds, the store afterwards differing only by the key being
  tracked.
\<close>

theorem fresh_value_no_transport:
  assumes "k \<noteq> []"
      and "getImpl e st (Str k) = Inr (Obj kvs)"
      and "map_of kvs EXPIRES_KEY = Some (Num x)"
      and "now e \<le> x"
    shows "fetchImpl e st [Str k, url, options] =
             Inr (Resolved (response (Obj kvs) (Num 0) (Obj [(''status'', Num 200)]) (Str k)), st)
           \<and> (handlers st = [] \<and> \<not> startsWith k ''/'' \<longrightarrow>
                storeFetch e st (Str k) url options =
                  Inr (Some (Resolved (response (Obj kvs) (Num 0) (Obj [(''status'', Num 200)])
                                         (Str k))),
                       track st k))"
proof (intro conjI impI)
  show "fetchImpl e st [Str k, url, options] =
             Inr (Resolved (response (Obj kvs) (Num 0) (Obj [(''status'', Num 200)]) (Str k)), st)"
    by (rule fetchImpl_fresh [OF assms])
next
  assume h: "handlers st = [] \<and> \<not> startsWith k ''/''"
  have g: "getImpl e (track st k) (Str k) = Inr (Obj kvs)"
    using assms(2) by (simp add: getImpl_track)
  have hs: "handlers (track st k) = []" using h by (simp add: track_def)
  have "handledFetch e (track st k) [Str k, url, Obj (assign [] [DEFAULT_LOAD_OPTIONS, options])]
        = fetchImpl e (track st k) [Str k, url, Obj (assign [] [DEFAULT_LOAD_OPTIONS, options])]"
    using assms(1) h hs
    by (simp add: handledFetch_def handledFetchStart_def fetchImpl_def routeHandledMethod_def
        routeKey_def rbind_def del: assign.simps)
  also have "\<dots> = Inr (Resolved (response (Obj kvs) (Num 0) (Obj [(''status'', Num 200)]) (Str k)),
                      track st k)"
    by (rule fetchImpl_fresh [OF assms(1) g assms(3,4)])
  finally show "storeFetch e st (Str k) url options =
                  Inr (Some (Resolved (response (Obj kvs) (Num 0) (Obj [(''status'', Num 200)])
                                         (Str k))),
                       track st k)"
    using assms(1) by (simp add: storeFetch_def rbind_def del: assign.simps)
qed

text \<open>A fresh value at \<open>beep\<close>, expiring at 5000 when the clock shows 1000.\<close>

theorem fresh_value_no_transport_witness:
  "getImpl sampleEnv (emptyStore\<lparr>data := Obj [(''beep'', Obj [(''beep'', Str ''foo''), (''__expires'', Num 5000)])]\<rparr>)
        (Str ''beep'') = Inr (Obj [(''beep'', Str ''foo''), (''__expires'', Num 5000)])
   \<and> map_of [(''beep'', Str ''foo''), (''__expires'', Num 5000)] EXPIRES_KEY = Some (Num 5000)
   \<and> now sampleEnv \<le> 5000
   \<and> fetchImpl sampleEnv (emptyStore\<lparr>data := Obj [(''beep'', Obj [(''beep'', Str ''foo''), (''__expires'', Num 5000)])]\<rparr>)
        [Str ''beep'', Str ''http://localhost/beep'', Undefined]
     = Inr (Resolved (response (Obj [(''beep'', Str ''foo''), (''__expires'', Num 5000)]) (Num 0)
                        (Obj [(''status'', Num 200)]) (Str ''beep'')),
            emptyStore\<lparr>data := Obj [(''beep'', Obj [(''beep'', Str ''foo''), (''__expires'', Num 5000)])]\<rparr>)
   \<and> storeFetch sampleEnv (emptyStore\<lparr>data := Obj [(''beep'', Obj [(''beep'', Str ''foo''), (''__expires'', Num 5000)])]\<rparr>)
        (Str ''beep'') (Str ''http://localhost/beep'') Undefined
     = Inr (Some (Resolved (response (Obj [(''beep'', Str ''foo''), (''__expires'', Num 5000)]) (Num 0)
                        (Obj [(''status'', Num 200)]) (Str ''beep''))),
            emptyStore\<lparr>data := Obj [(''beep'', Obj [(''beep'', Str ''foo''), (''__expires'', Num 5000)])],
                       fetchedKeys := [''beep'']\<rparr>)"
proof -
  have a: "''beep'' \<noteq> []" by simp
  have b: "getImpl sampleEnv (emptyStore\<lparr>data := Obj [(''beep'', Obj [(''beep'', Str ''foo''), (''__expires'', Num 5000)])]\<rparr>)
        (Str ''beep'') = Inr (Obj [(''beep'', Str ''foo''), (''__expires'', Num 5000)])"
    by code_simp
  have c: "map_of [(''beep'', Str ''foo''), (''__expires'', Num 5000)] EXPIRES_KEY = Some (Num 5000)"
    by (simp add: EXPIRES_KEY_def)
  have d: "now sampleEnv \<le> 5000" by (simp add: sampleEnv_def)
  have t: "track (emptyStore\<lparr>data := Obj [(''beep'', Obj [(''beep'', Str ''foo''), (''__expires'', Num 5000)])]\<rparr>)
             ''beep''
           = emptyStore\<lparr>data := Obj [(''beep'', Obj [(''beep'', Str ''foo''), (''__expires'', Num 5000)])],
                        fetchedKeys := [''beep'']\<rparr>"
    by code_simp
  have hs: "handlers emptyStore = []" by (simp add: emptyStore_def)
  show ?thesis
    using b c d fresh_value_no_transport [OF a b c d, of "Str ''http://localhost/beep''" Undefined]
    by (simp add: t hs)
qed

section \<open>Destroying a fetch-capable store\<close>

text \<open>
  Claim C5, as the sources have it. \<open>destroy\<close> of the fetch-capable store first calls
  \<open>abort\<close> without a key: in a browser it tells the agent to abort the requests of the
  tracked keys, in every runtime it cancels the timer of each tracked key and forgets
  the tracked keys; only then it destroys the cursors, marks the store destroyed,
  empties data, handlers and serialisability, and removes the listeners.
\<close>

theorem destroy_aborts_first:
  "destroy e st =
     Inr \<lparr>destroyed = True, isWritable = isWritable st, cursors = [], data = Obj [],
          handlers = [], serialisableKeys = [], fetchedKeys = [],
          effects = effects st
            @ (if isBrowser e then [AgentAbortTracked (fetchedKeys st)] else [])
            @ map (\<lambda>k. ClockCancel (Str k)) (fetchedKeys st)
            @ map CursorDestroy (cursors st) @ [RemoveAllListeners]\<rparr>"
  by (simp add: destroy_def abort_def baseDestroy_def rbind_def)

text \<open>
  The claim as stated, that \<open>destroy\<close> cancels nothing, fails: with one fetched key
  and one cursor, in a browser, the agent is told to abort and the timer of the key is
  cancelled before the cursor is destroyed.
\<close>

theorem destroy_without_cancelling_counterexample:
  "destroy browserEnv (emptyStore\<lparr>fetchedKeys := [''beep''], cursors := [''/foo'']\<rparr>) =
     Inr (emptyStore\<lparr>destroyed := True,
            effects := [AgentAbortTracked [''beep''], ClockCancel (Str ''beep''),
                        CursorDestroy ''/foo'', RemoveAllListeners]\<rparr>)"
  by (simp add: destroy_def abort_def baseDestroy_def rbind_def browserEnv_def sampleEnv_def
      emptyStore_def)

theorem destroy_aborts_first_witness:
  "destroy sampleEnv (emptyStore\<lparr>fetchedKeys := [''beep'', ''boop'']\<rparr>) =
     Inr (emptyStore\<lparr>destroyed := True,
            effects := [ClockCancel (Str ''beep''), ClockCancel (Str ''boop''),
                        RemoveAllListeners]\<rparr>)"
  using destroy_aborts_first [of sampleEnv "emptyStore\<lparr>fetchedKeys := [''beep'', ''boop'']\<rparr>"]
  by (simp add: sampleEnv_def emptyStore_def)

section \<open>The context a handled call builds\<close>

text \<open>
  The context class does what its comments say when it is given a signature and the
  call arguments: fields named by the signature, a variadic field collecting the rest,
  and the arguments back in order.
\<close>

lemma context_follows_signature:
  "newHandlerContext [StoreRef, Arr [Str ''key'', Str ''...rest''],
                      Arr [Str ''foo'', Num 1, Num 2]]
     = Inr [(''signature'', Arr [Str ''key'', Str ''...rest'']), (''store'', StoreRef),
            (''key'', Str ''foo''), (''rest'', Arr [Num 1, Num 2])]
   \<and> toArguments [(''signature'', Arr [Str ''key'', Str ''...rest'']), (''store'', StoreRef),
            (''key'', Str ''foo''), (''rest'', Arr [Num 1, Num 2])]
     = Inr [Str ''foo'', Num 1, Num 2]"
  by code_simp


text \<open>
  Claim C1 fails on the sources. \<open>_routeHandledMethod\<close> constructs the context with
  four arguments, \<open>(this, methodName, signature, args)\<close>, and the constructor has three
  parameters, \<open>(store, signature, args)\<close>: it takes the method name for the signature
  and the signature for the arguments. On a store with one handler registered for every
  key, \<open>set('foo', 1)\<close> builds a context whose fields are the letters of \<open>set\<close>, bound to
  the parameter names; the implementation is then called with the parameter names
  \<open>'key', 'value', 'options'\<close> and stores \<open>'value'\<close> at \<open>key\<close>. The call arguments
  \<open>'foo'\<close> and \<open>1\<close> reach neither the handlers nor the implementation.
\<close>

theorem handled_set_receives_signature_names:
  "newHandlerContext [StoreRef, Str ''set'', Arr [Str ''key'', Str ''value'', Str ''options''],
                      Arr [Str ''foo'', Num 1, Undefined]]
     = Inr [(''signature'', Str ''set''), (''store'', StoreRef), (''s'', Str ''key''),
            (''e'', Str ''value''), (''t'', Str ''options'')]
   \<and> routeHandledMethod sampleEnv observedStore ''set'' (\<lambda>st args. Inr args)
        [''key'', ''value'', ''options''] [Str ''foo'', Num 1, Undefined]
     = Inr [Str ''key'', Str ''value'', Str ''options'']
   \<and> storeSet sampleEnv observedStore (Str ''foo'') (Num 1) Undefined
     = Inr (observedStore\<lparr>data := Obj [(''key'', Str ''value'')]\<rparr>)"
  by code_simp

theorem handled_set_receives_signature_names_witness:
  "rbind (storeSet sampleEnv observedStore (Str ''foo'') (Num 1) Undefined)
     (\<lambda>st. storeGet sampleEnv st (Str ''foo'')) = Inr Undefined"
  using handled_set_receives_signature_names
  by (simp add: rbind_def) code_simp

section \<open>Resolving a key\<close>

lemma getProp_nullish: "isNullish v \<Longrightarrow> getProp v k = Undefined"
  by (cases v) (simp_all add: getProp_def)

lemma nodeAt_Undefined: "nodeAt Undefined ss = Undefined"
  by (induction ss) (simp_all add: getProp_def)


lemma pgetSegs_nodeAt: "pgetSegs t ss = nodeAt t ss"
  by (induction ss arbitrary: t) (simp_all add: nodeAt_Undefined getProp_nullish)

lemma startsWith_append: "startsWith s p \<Longrightarrow> s = p @ drop (length p) s"
  by (induction s p rule: startsWith.induct) auto


lemma isRefValue_parse: "isRefValue (Str s) \<Longrightarrow> s = REF_KEY @ parseRefKey s"
  using startsWith_append [of s REF_KEY] by (simp add: isRefValue_def parseRefKey_def)




lemma walk_step:
  "\<not> isNullish (getProp v seg) \<Longrightarrow> \<not> isRefValue (getProp v seg) \<Longrightarrow>
   walk v (seg # segs) i = walk (getProp v seg) segs (Suc i)"
  by (auto simp: Let_def split: jsval.splits)



text \<open>What the walk reports is the first alias on the path.\<close>

lemma walk_found:
  "walk v segs i = (Some t, j) \<Longrightarrow>
   i \<le> j \<and> j < i + length segs \<and> nodeAt v (take (Suc (j - i)) segs) = Str (REF_KEY @ t)
   \<and> (\<forall>m<j - i. \<not> isRefValue (nodeAt v (take (Suc m) segs)))"
proof (induction segs arbitrary: v i)
  case Nil
  then show ?case by simp
next
  case (Cons seg segs)
  let ?next = "getProp v seg"
  show ?case
  proof (cases "isRefValue ?next")
    case True
    then obtain s where s: "?next = Str s" by (cases ?next) (simp_all add: isRefValue_def)
    with True have nn: "\<not> isNullish ?next" by simp
    from Cons.prems s True nn have "t = parseRefKey s" "j = i"
      by (simp_all add: Let_def)
    moreover have "s = REF_KEY @ parseRefKey s" using True s isRefValue_parse by simp
    ultimately show ?thesis using s by simp
  next
    case False
    with Cons.prems have w: "walk ?next segs (Suc i) = (Some t, j)"
      by (auto simp: Let_def split: if_splits jsval.splits)
    from Cons.IH [OF w] have ih: "Suc i \<le> j" "j < Suc i + length segs"
      "nodeAt ?next (take (Suc (j - Suc i)) segs) = Str (REF_KEY @ t)"
      "\<forall>m<j - Suc i. \<not> isRefValue (nodeAt ?next (take (Suc m) segs))"
      by simp_all
    have e: "Suc (j - i) = Suc (Suc (j - Suc i))" using ih(1) by simp
    have "\<forall>m<j - i. \<not> isRefValue (nodeAt v (take (Suc m) (seg # segs)))"
    proof (intro allI impI)
      fix m assume m: "m < j - i"
      show "\<not> isRefValue (nodeAt v (take (Suc m) (seg # segs)))"
      proof (cases m)
        case 0
        then show ?thesis using False by simp
      next
        case (Suc m')
        then have "m' < j - Suc i" using m by simp
        with ih(4) Suc show ?thesis by simp
      qed
    qed
    with ih e show ?thesis by simp
  qed
qed

subsection \<open>The expansion of aliases when dumping\<close>

















subsection \<open>The resolver and the expansion\<close>

text \<open>The key that the resolver returns, from what its walk reports.\<close>

lemma resolve_via_walk:
  assumes "\<not> isNullish d"
      and "(slash = [] \<and> \<not> isRefValue (Str k) \<and> \<not> startsWith k ''/'') \<or> slash = ''/''"
    shows "resolveRefKey d (slash @ k) =
             (case walk d (split (CHR ''/'') k) 0 of
                (found, idx) \<Rightarrow>
                  Inr (case found of
                         None \<Rightarrow> k
                       | Some r \<Rightarrow>
                           if r \<noteq> k \<and> idx + 1 < length (split (CHR ''/'') k)
                           then r @ ''/'' @ join ''/'' (drop (idx + 1) (split (CHR ''/'') k))
                           else r))"
proof -
  have a: "\<not> isRefValue (Str (slash @ k))"
    using assms(2) by (auto simp: isRefValue_def REF_KEY_def)
  have b: "(if startsWith (slash @ k) ''/'' then drop 1 (slash @ k) else slash @ k) = k"
    using assms(2) by auto
  show ?thesis
    using assms(1) a
    by (auto simp: resolveRefKey_def b Let_def split: prod.splits option.splits)
qed





section \<open>Fetching a batch\<close>



lemma writesOnly_TypeError: "writesOnly st (Inl TypeError)"
  by (simp add: writesOnly_def)

lemma writesOnly_data: "writesOnly st (Inr (st\<lparr>data := d\<rparr>))"
  by (simp add: writesOnly_def)























































text \<open>
  Without \<open>staleIfError\<close>, an entry that holds an expired value and asks for
  \<open>staleWhileRevalidate\<close> is answered with that value although its load fails, and the
  batch resolves; the callbacks of the failed load clear the value afterwards.
\<close>

lemma fetchAll_answers_stale:
  "fetchAll sampleEnv (emptyStore\<lparr>data := Obj [(''boop'', Obj [(''x'', Num 1), (''__expires'', Num 0)])]\<rparr>)
     (Arr [Arr [Str ''boop'', Str ''http://localhost/boop'', Obj [(''staleWhileRevalidate'', Bool True)]]]) Undefined
   = Inr (Resolved (Arr [Obj [(''body'', Obj [(''x'', Num 1), (''__expires'', Num 0)]),
                              (''duration'', Num 0), (''headers'', Obj [(''status'', Num 200)]),
                              (''key'', Str ''boop'')]]),
          emptyStore\<lparr>data := Obj [(''boop'', Undefined)],
            effects := [AgentGet (Str ''http://localhost/boop'')
                          (Obj [(''minExpiry'', Num 60000), (''retry'', Num 2),
                                (''timeout'', Num 5000), (''staleWhileRevalidate'', Bool True),
                                (''id'', Str ''boop'')])]\<rparr>)"
  by code_simp

text \<open>
  When the loads settle in the reverse of the request order, the calls to the agent are
  still made in request order, and the callbacks write in the order of settling.
\<close>

lemma fetchAll_settling_order:
  "fetchAll lastFirstEnv emptyStore
     (Arr [Arr [Str ''a'', Str ''http://localhost/a''], Arr [Str ''b'', Str ''http://localhost/b'']])
     Undefined
   = Inr (Rejected (Obj [(''status'', Num 500)]),
          emptyStore\<lparr>data := Obj [(''b'', Undefined), (''a'', Undefined)],
            effects := [AgentGet (Str ''http://localhost/a'')
                          (Obj [(''minExpiry'', Num 60000), (''retry'', Num 2),
                                (''timeout'', Num 5000), (''id'', Str ''a'')]),
                        AgentGet (Str ''http://localhost/b'')
                          (Obj [(''minExpiry'', Num 60000), (''retry'', Num 2),
                                (''timeout'', Num 5000), (''id'', Str ''b'')])]\<rparr>)"
  by code_simp

section \<open>Reading back what was written\<close>

lemma deref_aliasFree:
  "aliasFree v \<Longrightarrow> deref h d v = Inr v"
  "aliasFreeList xs \<Longrightarrow> derefList h d xs = Inr xs"
  "aliasFreeProps kvs \<Longrightarrow> derefProps h d kvs = Inr kvs"
  by (induction v and xs and kvs rule: aliasFree_aliasFreeList_aliasFreeProps.induct)
     (simp_all add: rbind_def)

lemma aliasFree_not_ref: "aliasFree v \<Longrightarrow> \<not> isRefValue v"
  by (cases v) (simp_all add: isRefValue_def)

lemma mappingPath_Undefined: "mappingPath Undefined segs"
  by (cases segs) simp_all

lemma psetSegs_Undefined: "\<exists>t'. psetSegs e Undefined segs v m = Inr t'"
  by (induction segs) (auto simp: rbind_def)

lemma psetSegs_ok: "mappingPath t segs \<Longrightarrow> \<exists>t'. psetSegs e t segs v m = Inr t'"
proof (induction segs arbitrary: t)
  case Nil
  then show ?case by simp
next
  case (Cons s ss)
  show ?case
  proof (cases t)
    case (Obj kvs)
    with Cons.prems have "mappingPath (getProp t s) ss" by simp
    from Cons.IH [OF this] obtain c where "psetSegs e (getProp t s) ss v m = Inr c" by blast
    with Obj show ?thesis by (simp add: rbind_def)
  next
    case Undefined
    then show ?thesis using psetSegs_Undefined [of e "s # ss" v m] by simp
  qed (use Cons.prems in simp_all)
qed

text \<open>
  A write along a path of mappings rebuilds the mapping at the root: the property named
  by the first segment is the subtree with the value written, the others stay.
\<close>

lemma psetSegs_shape:
  assumes "mappingPath t (s # ss)" and "psetSegs e t (s # ss) v m = Inr t'"
  shows "\<exists>kvs c. t' = Obj kvs \<and> getProp t' s = c \<and> psetSegs e (getProp t s) ss v m = Inr c
                 \<and> mappingPath (getProp t s) ss
                 \<and> (\<forall>s'. s' \<noteq> s \<longrightarrow> getProp t' s' = getProp t s')"
proof (cases t)
  case (Obj kvs)
  with assms show ?thesis
    by (auto simp: rbind_def getProp_def map_of_obj_set split: sum.splits)
next
  case Undefined
  with assms show ?thesis
    by (auto simp: rbind_def getProp_def mappingPath_Undefined split: sum.splits)
qed (use assms in simp_all)

lemma pget_pset:
  "mappingPath t segs \<Longrightarrow> psetSegs e t segs v m = Inr t' \<Longrightarrow>
   nodeAt t' segs = (if m then deepMerge (nodeAt t segs) v else v)"
proof (induction segs arbitrary: t t')
  case Nil
  then show ?case by auto
next
  case (Cons s ss)
  from psetSegs_shape [OF Cons.prems] obtain kvs c where
    c: "t' = Obj kvs" "getProp t' s = c" "psetSegs e (getProp t s) ss v m = Inr c"
       "mappingPath (getProp t s) ss"
    by blast
  from Cons.IH [OF c(4,3)] c(2) show ?case by simp
qed

text \<open>After a write the path to the written node meets no alias above that node.\<close>

lemma walk_after_pset:
  "mappingPath t segs \<Longrightarrow> psetSegs e t segs v m = Inr t' \<Longrightarrow>
   \<not> isRefValue (nodeAt t' segs) \<Longrightarrow> fst (walk t' segs i) = None"
proof (induction segs arbitrary: t t' i)
  case Nil
  then show ?case by simp
next
  case (Cons s ss)
  from psetSegs_shape [OF Cons.prems(1,2)] obtain kvs c where
    c: "t' = Obj kvs" "getProp t' s = c" "psetSegs e (getProp t s) ss v m = Inr c"
       "mappingPath (getProp t s) ss"
    by blast
  have nr: "\<not> isRefValue (nodeAt c ss)"
    using Cons.prems(3) c(2) by simp
  have rec: "fst (walk c ss (Suc i)) = None" by (rule Cons.IH [OF c(4,3) nr])
  have "\<not> isRefValue c"
  proof (cases ss)
    case Nil
    with nr show ?thesis by simp
  next
    case (Cons s' ss')
    with c(3,4) obtain kvs' where "c = Obj kvs'" using psetSegs_shape by blast
    then show ?thesis by (simp add: isRefValue_def)
  qed
  with rec c(2) show ?case
    by (auto simp: Let_def split: jsval.splits)
qed

lemma walk_cong:
  "getProp v s = getProp v' s \<Longrightarrow> walk v (s # ss) i = walk v' (s # ss) i"
  by (simp add: Let_def)

lemma leads_Cons: "leads (r # rs) (s # ss) = (r = s \<and> leads rs ss)"
  by (auto simp: leads_def)

lemma leads_Nil: "leads [] ys"
  by (simp add: leads_def)

text \<open>
  A write at a path that does not lead to the alias a key is redirected by leaves the
  walk along that key as it was.
\<close>

lemma walk_kept:
  "mappingPath t rsegs \<Longrightarrow> psetSegs e t rsegs v m = Inr t' \<Longrightarrow>
   walk t ksegs i = (Some a, j) \<Longrightarrow> \<not> leads rsegs ksegs \<Longrightarrow> walk t' ksegs i = (Some a, j)"
proof (induction ksegs arbitrary: t t' rsegs i)
  case Nil
  then show ?case by simp
next
  case (Cons s ss)
  let ?next = "getProp t s"
  from Cons.prems(4) obtain r rs where rsegs: "rsegs = r # rs"
    by (cases rsegs) (simp_all add: leads_Nil)
  from psetSegs_shape [OF Cons.prems(1,2) [unfolded rsegs]] obtain kvs c where
    c: "t' = Obj kvs" "getProp t' r = c" "psetSegs e (getProp t r) rs v m = Inr c"
       "mappingPath (getProp t r) rs" "\<forall>s'. s' \<noteq> r \<longrightarrow> getProp t' s' = getProp t s'"
    by blast
  show ?case
  proof (cases "r = s")
    case False
    then have "getProp t' s = getProp t s" using c(5) by simp
    from walk_cong [OF this] Cons.prems(3) show ?thesis by simp
  next
    case True
    have nl: "\<not> leads rs ss" using Cons.prems(4) True by (simp add: rsegs leads_Cons)
    then obtain r' rs' where rs: "rs = r' # rs'" by (cases rs) (simp_all add: leads_Nil)
    have nn: "\<not> isNullish ?next"
      using Cons.prems(3) by (auto simp: Let_def split: if_splits)
    have nr: "\<not> isRefValue ?next"
    proof
      assume "isRefValue ?next"
      then obtain x where "?next = Str x" by (cases ?next) (simp_all add: isRefValue_def)
      with c(4) True rs show False by simp
    qed
    have w: "walk ?next ss (Suc i) = (Some a, j)"
      using Cons.prems(3) by (simp add: walk_step [OF nn nr] del: walk.simps)
    have w': "walk c ss (Suc i) = (Some a, j)"
      using Cons.IH [OF _ _ w nl] c(3,4) True by simp
    from psetSegs_shape [OF c(4,3) [unfolded rs]] obtain kvs' where "c = Obj kvs'" by blast
    then have "\<not> isNullish c" "\<not> isRefValue c" by (simp_all add: isRefValue_def)
    then have "\<not> isNullish (getProp t' s)" "\<not> isRefValue (getProp t' s)"
      using c(2) True by simp_all
    from walk_step [OF this] w' c(2) True show ?thesis by simp
  qed
qed

lemma split_not_Nil: "split c s \<noteq> []"
  by (induction s) (auto split: list.splits)

lemma deepMerge_keeps:
  "\<not> isPlainObject v \<or> \<not> isPlainObject old \<Longrightarrow> deepMerge old v = v"
  by (cases v; cases old) simp_all


lemma alias_key_no_slash: "isRefValue (Str k) \<Longrightarrow> \<not> startsWith k ''/''"
  by (cases k) (auto simp: isRefValue_def REF_KEY_def)

text \<open>
  Claim C4, as the sources have it. On a writable store with no registered handler
  whose data is a mapping, take a key that is alias-encoded, or a key (with or without
  one leading separator) that is not empty once the separator is trimmed and does not
  start with a further separator. Let \<open>rk\<close> be the key that the resolver makes of it: it
  is not empty, the accessor can write along its path, and, unless the key is
  alias-encoded or resolves to itself, its path does not lead to the node that the key
  names (the alias that redirects the key does not point to a node above itself). Let
  the value hold no alias. If merging is switched off in the options, or the value is no
  mapping, or no mapping is stored at \<open>rk\<close>; and if the write is made copy-on-write or the
  tree is not frozen; then \<open>set\<close> returns, \<open>get\<close> of the same key afterwards returns the
  value, and the value is what the tree holds at \<open>rk\<close>: a write through an alias lands
  on the target of the alias.
\<close>

theorem set_then_get_returns_value:
  assumes "isWritable st" and "handlers st = []" and "isPlainObject (data st)"
      and "k \<noteq> []"
      and "(isRefValue (Str k) \<and> slash = [])
           \<or> (\<not> isRefValue (Str k) \<and> \<not> startsWith k ''/'' \<and> (slash = [] \<or> slash = ''/''))"
      and "resolveRefKey (data st) k = Inr rk" and "rk \<noteq> []"
      and "isRefValue (Str k) \<or> rk = k \<or> \<not> leads (split (CHR ''/'') rk) (split (CHR ''/'') k)"
      and "mappingPath (data st) (split (CHR ''/'') rk)"
      and "aliasFree v"
      and "(hasProp options ''merge'' \<and> \<not> truthy (getProp options ''merge''))
           \<or> \<not> isPlainObject v \<or> \<not> isPlainObject (propertyGet (data st) rk)"
      and "truthy (getProp (Obj (assign [] [DEFAULT_OPTIONS e, options])) ''immutable'')
           \<or> \<not> frozenTree e (data st)"
    shows "\<exists>st'. storeSet e st (Str (slash @ k)) v options = Inr st'
                 \<and> storeGet e st' (Str (slash @ k)) = Inr v
                 \<and> propertyGet (data st') rk = v"
proof -
  let ?d = "data st"
  let ?ks = "split (CHR ''/'') k"
  let ?rs = "split (CHR ''/'') rk"
  let ?opts = "Obj (assign [] [DEFAULT_OPTIONS e, options])"
  let ?m = "truthy (getProp ?opts ''merge'')"
  let ?imm = "truthy (getProp ?opts ''immutable'')"
  have nn: "\<not> isNullish ?d" using assms(3) by (cases ?d) simp_all
  have ob: "isObject ?d" using assms(3) by (cases ?d) simp_all
  have ns: "\<not> startsWith k ''/''" using assms(5) alias_key_no_slash by blast
  have rkey: "routeKey True (Str (slash @ k)) = Inr (Str k)"
    using assms(4,5) ns by (auto simp: routeKey_def)
  from psetSegs_ok [OF assms(9)] obtain d' where
    ps: "psetSegs e ?d ?rs v ?m = Inr d'" by blast
  have wr: "written e ?d rk v ?m = Inr d'"
    using ps assms(7) by (simp add: written_def)
  define st' where
    "st' = (if ?imm then (if d' \<noteq> ?d then st\<lparr>data := d'\<rparr> else st) else st\<lparr>data := d'\<rparr>)"
  have dst: "data st' = d'" by (simp add: st'_def)
  have ds: "doSet e st (Str k) v ?opts = Inr st'"
    using assms(6,12) wr ob
    by (auto simp: doSet_def propertySet_def rbind_def st'_def simp del: assign.simps)
  have set: "storeSet e st (Str (slash @ k)) v options = Inr st'"
    using assms(1,2,4) rkey ds
    by (simp add: storeSet_def handledSet_def routeHandledMethod_def rbind_def setImpl_def
        nthOrUndefined_def del: assign.simps)
  have m: "?m = (if hasProp options ''merge'' then truthy (getProp options ''merge'') else True)"
    by (simp add: getProp_assign2) (simp add: DEFAULT_OPTIONS_def getProp_def)
  have old: "nodeAt ?d ?rs = propertyGet ?d rk"
    using assms(7) by (simp add: propertyGet_def pgetSegs_nodeAt)
  have "nodeAt d' ?rs = (if ?m then deepMerge (nodeAt ?d ?rs) v else v)"
    by (rule pget_pset [OF assms(9) ps])
  also have "\<dots> = v"
    using assms(11) m old deepMerge_keeps [of v "nodeAt ?d ?rs"] by auto
  finally have rd: "nodeAt d' ?rs = v" .
  have nr: "\<not> isRefValue (nodeAt d' ?rs)"
    using rd aliasFree_not_ref [OF assms(10)] by simp
  obtain s ss where segs: "?rs = s # ss"
    using split_not_Nil [of "CHR ''/''" rk] by (cases ?rs) auto
  obtain kvs where "d' = Obj kvs"
    using psetSegs_shape [of ?d s ss e v ?m d'] assms(9) ps by (auto simp: segs)
  then have nn': "\<not> isNullish d'" by simp
  have res': "resolveRefKey d' (slash @ k) = Inr rk"
  proof (cases "isRefValue (Str k)")
    case True
    with assms(5) have "slash = []" by blast
    with True assms(6) show ?thesis by (simp add: resolveRefKey_def)
  next
    case False
    with assms(5) have form: "(slash = [] \<and> \<not> isRefValue (Str k) \<and> \<not> startsWith k ''/'') \<or> slash = ''/''"
      by blast
    have form0: "([] = [] \<and> \<not> isRefValue (Str k) \<and> \<not> startsWith k ''/'') \<or> [] = ''/''"
      using False ns by simp
    obtain found idx where w: "walk ?d ?ks 0 = (found, idx)" by (cases "walk ?d ?ks 0")
    have r0: "rk = (case found of
                      None \<Rightarrow> k
                    | Some r \<Rightarrow>
                        if r \<noteq> k \<and> idx + 1 < length ?ks
                        then r @ ''/'' @ join ''/'' (drop (idx + 1) ?ks)
                        else r)"
      using resolve_via_walk [OF nn form0] assms(6) w by simp
    show ?thesis
    proof (cases "rk = k")
      case True
      have "fst (walk d' ?ks 0) = None"
        using walk_after_pset [OF assms(9) ps nr] True by simp
      then obtain idx' where "walk d' ?ks 0 = (None, idx')"
        by (cases "walk d' ?ks 0") auto
      then show ?thesis using resolve_via_walk [OF nn' form] True by simp
    next
      case neq: False
      with False assms(8) have nl: "\<not> leads ?rs ?ks" by blast
      from neq r0 obtain a where a: "found = Some a" by (cases found) auto
      have "walk d' ?ks 0 = (Some a, idx)"
        using walk_kept [OF assms(9) ps _ nl] w a by simp
      then show ?thesis using resolve_via_walk [OF nn' form] r0 a by simp
    qed
  qed
  have pg: "propertyGet d' rk = v"
    using rd assms(7) by (simp add: propertyGet_def pgetSegs_nodeAt)
  have "storeGet e st' (Str (slash @ k)) = Inr v"
    using res' pg assms(4) deref_aliasFree(1) [OF assms(10)] dst
    by (simp add: storeGet_def getImpl_def rbind_def)
  with set pg dst show ?thesis by blast
qed


text \<open>
  The store of the documentation: \<open>set('stuff/bat', false)\<close> goes through the alias at
  \<open>stuff\<close> and writes at \<open>foo/bar/bat\<close>; \<open>get('stuff/bat')\<close> reads it back.
\<close>

theorem set_then_get_returns_value_witness:
  "storeSet sampleEnv readmeStore (Str ''stuff/bat'') (Bool False) Undefined
     = Inr (readmeStore\<lparr>data := Obj [(''foo'', Obj [(''bar'', Obj [(''bat'', Bool False)])]),
                                    (''stuff'', Str ''__ref:foo/bar'')]\<rparr>)
   \<and> (\<exists>st'. storeSet sampleEnv readmeStore (Str ''stuff/bat'') (Bool False) Undefined = Inr st'
          \<and> storeGet sampleEnv st' (Str ''stuff/bat'') = Inr (Bool False)
          \<and> propertyGet (data st') ''foo/bar/bat'' = Bool False)"
proof -
  have h1: "isWritable readmeStore" by (simp add: readmeStore_def emptyStore_def)
  have h2: "handlers readmeStore = []" by (simp add: readmeStore_def emptyStore_def)
  have h3: "isPlainObject (data readmeStore)" by (simp add: readmeStore_def)
  have h4: "''stuff/bat'' \<noteq> []" by simp
  have h5: "(isRefValue (Str ''stuff/bat'') \<and> [] = [])
           \<or> (\<not> isRefValue (Str ''stuff/bat'') \<and> \<not> startsWith ''stuff/bat'' ''/''
               \<and> ([] = [] \<or> [] = ''/''))"
    by (simp add: isRefValue_def REF_KEY_def)
  have h6: "resolveRefKey (data readmeStore) ''stuff/bat'' = Inr ''foo/bar/bat''" by code_simp
  have h7: "''foo/bar/bat'' \<noteq> []" by simp
  have h8: "isRefValue (Str ''stuff/bat'') \<or> ''foo/bar/bat'' = ''stuff/bat''
            \<or> \<not> leads (split (CHR ''/'') ''foo/bar/bat'') (split (CHR ''/'') ''stuff/bat'')"
    by code_simp
  have h9: "mappingPath (data readmeStore) (split (CHR ''/'') ''foo/bar/bat'')" by code_simp
  have h10: "aliasFree (Bool False)" by simp
  have h11: "(hasProp Undefined ''merge'' \<and> \<not> truthy (getProp Undefined ''merge''))
           \<or> \<not> isPlainObject (Bool False)
           \<or> \<not> isPlainObject (propertyGet (data readmeStore) ''foo/bar/bat'')"
    by simp
  have h12: "truthy (getProp (Obj (assign [] [DEFAULT_OPTIONS sampleEnv, Undefined])) ''immutable'')
           \<or> \<not> frozenTree sampleEnv (data readmeStore)"
    by (simp add: sampleEnv_def)
  have run: "storeSet sampleEnv readmeStore (Str ''stuff/bat'') (Bool False) Undefined
     = Inr (readmeStore\<lparr>data := Obj [(''foo'', Obj [(''bar'', Obj [(''bat'', Bool False)])]),
                                    (''stuff'', Str ''__ref:foo/bar'')]\<rparr>)"
    by code_simp
  show ?thesis
    using run set_then_get_returns_value [OF h1 h2 h3 h4 h5 h6 h7 h8 h9 h10 h11 h12]
    by simp
qed

text \<open>
  The claim as stated fails. With the default options, \<open>set('foo', {a: 1})\<close> on a store
  that holds \<open>{b: 2}\<close> at \<open>foo\<close> merges, and \<open>get('foo')\<close> returns \<open>{b: 2, a: 1}\<close>.
  \<open>set('/', 1)\<close> writes nothing, the key being empty once the routing has trimmed it,
  while \<open>get('/')\<close> returns the whole tree. Where \<open>x/y\<close> is an alias of \<open>x\<close>,
  \<open>set('x/y', 5)\<close> replaces the node above the alias, and \<open>get('x/y')\<close> finds nothing.
  \<open>set('/__ref:foo', 1)\<close> writes at \<open>foo\<close>, the routing having trimmed the separator,
  while \<open>get\<close> takes the same key for a plain one; \<open>set('//a', 1)\<close> writes at \<open>a\<close> while
  \<open>get('//a')\<close> reads below the empty segment. A value that holds an alias inside is
  read back with the alias replaced by its target. And a write in place into a frozen
  tree is lost.
\<close>

theorem set_then_get_differs_counterexample:
  "storeSet sampleEnv (emptyStore\<lparr>data := Obj [(''foo'', Obj [(''b'', Num 2)])]\<rparr>) (Str ''foo'')
     (Obj [(''a'', Num 1)]) Undefined
     = Inr (emptyStore\<lparr>data := Obj [(''foo'', Obj [(''b'', Num 2), (''a'', Num 1)])]\<rparr>)
   \<and> storeGet sampleEnv (emptyStore\<lparr>data := Obj [(''foo'', Obj [(''b'', Num 2), (''a'', Num 1)])]\<rparr>)
       (Str ''foo'')
     = Inr (Obj [(''b'', Num 2), (''a'', Num 1)])
   \<and> storeSet sampleEnv emptyStore (Str ''/'') (Num 1) Undefined = Inr emptyStore
   \<and> storeGet sampleEnv emptyStore (Str ''/'') = Inr (Obj [])
   \<and> storeSet sampleEnv (emptyStore\<lparr>data := Obj [(''x'', Obj [(''y'', Str ''__ref:x'')])]\<rparr>)
       (Str ''x/y'') (Num 5) Undefined
     = Inr (emptyStore\<lparr>data := Obj [(''x'', Num 5)]\<rparr>)
   \<and> storeGet sampleEnv (emptyStore\<lparr>data := Obj [(''x'', Num 5)]\<rparr>) (Str ''x/y'') = Inr Undefined
   \<and> storeSet sampleEnv emptyStore (Str ''/__ref:foo'') (Num 1) Undefined
     = Inr (emptyStore\<lparr>data := Obj [(''foo'', Num 1)]\<rparr>)
   \<and> storeGet sampleEnv (emptyStore\<lparr>data := Obj [(''foo'', Num 1)]\<rparr>) (Str ''/__ref:foo'')
     = Inr Undefined
   \<and> storeSet sampleEnv emptyStore (Str ''//a'') (Num 1) Undefined
     = Inr (emptyStore\<lparr>data := Obj [(''a'', Num 1)]\<rparr>)
   \<and> storeGet sampleEnv (emptyStore\<lparr>data := Obj [(''a'', Num 1)]\<rparr>) (Str ''//a'') = Inr Undefined
   \<and> storeSet sampleEnv (emptyStore\<lparr>data := Obj [(''b'', Num 2)]\<rparr>) (Str ''a'')
       (Obj [(''x'', Str ''__ref:b'')]) Undefined
     = Inr (emptyStore\<lparr>data := Obj [(''b'', Num 2), (''a'', Obj [(''x'', Str ''__ref:b'')])]\<rparr>)
   \<and> storeGet sampleEnv
       (emptyStore\<lparr>data := Obj [(''b'', Num 2), (''a'', Obj [(''x'', Str ''__ref:b'')])]\<rparr>) (Str ''a'')
     = Inr (Obj [(''x'', Num 2)])
   \<and> storeSet frozenEnv emptyStore (Str ''foo'') (Num 1) Undefined = Inr emptyStore
   \<and> storeGet frozenEnv emptyStore (Str ''foo'') = Inr Undefined"
  by code_simp


end
